theory Spec2Isabelle
  imports Complex_Main
begin

section \<open>Python values\<close>

text \<open>
  The gateway of \<^verbatim>\<open>src/main.py\<close> is modelled function by function. A Python \<^verbatim>\<open>str\<close>
  is a \<^typ>\<open>string\<close>; one \<^typ>\<open>char\<close> stands for one code point, so the model covers the
  strings whose code points are below 256 and \<^const>\<open>length\<close> is Python's \<^verbatim>\<open>len\<close> on them.
  An exception is a value of \<open>exn\<close>; a function that can raise returns \<open>exn + 'a\<close> with
  \<open>Inl\<close> for the exception.
\<close>

datatype exn =
    HTTPException nat string
  | RequestException string
  | JSONDecodeError string
  | ValueError string
  | TypeError string
  | AttributeError string
  | KeyError string
  | Exception string

text \<open>
  \<open>HTTPException status_code detail\<close> is FastAPI's exception, \<open>RequestException\<close> stands for
  \<^verbatim>\<open>requests.exceptions.RequestException\<close> and its subclasses, \<open>Exception\<close> for every
  other class. The string is the message \<^verbatim>\<open>str(e)\<close> returns, except for \<open>KeyError\<close>, whose
  argument is the key.
\<close>

function str_nat :: "nat \<Rightarrow> string" where
  "str_nat n =
     (if n < 10 then [''0123456789'' ! n]
      else str_nat (n div 10) @ [''0123456789'' ! (n mod 10)])"
  by pat_completeness auto
termination
  by (relation "measure id") auto

declare str_nat.simps [simp del]

text \<open>
  \<^verbatim>\<open>str(e)\<close>. Starlette's \<^verbatim>\<open>HTTPException.__str__\<close> returns
  \<^verbatim>\<open>f"{self.status_code}: {self.detail}"\<close>; \<^verbatim>\<open>str\<close> of a \<^verbatim>\<open>KeyError\<close> is the
  \<^verbatim>\<open>repr\<close> of its key.
\<close>

fun str_exn :: "exn \<Rightarrow> string" where
  "str_exn (HTTPException status_code detail) = str_nat status_code @ '': '' @ detail"
| "str_exn (RequestException m) = m"
| "str_exn (JSONDecodeError m) = m"
| "str_exn (ValueError m) = m"
| "str_exn (TypeError m) = m"
| "str_exn (AttributeError m) = m"
| "str_exn (KeyError k) = [CHR 0x27] @ k @ [CHR 0x27]"
| "str_exn (Exception m) = m"

fun is_RequestException :: "exn \<Rightarrow> bool" where
  "is_RequestException (RequestException m) = True"
| "is_RequestException e = False"

fun is_JSONDecodeError :: "exn \<Rightarrow> bool" where
  "is_JSONDecodeError (JSONDecodeError m) = True"
| "is_JSONDecodeError e = False"

text \<open>
  The truth value of an \<^verbatim>\<open>Optional[str]\<close>: \<^verbatim>\<open>None\<close> and the empty string are false.
  \<open>nonempty x\<close> is the string when \<open>x\<close> is true; \<open>or_else x d\<close> is \<^verbatim>\<open>x or d\<close> and
  \<^verbatim>\<open>x if x else d\<close>.
\<close>

fun nonempty :: "string option \<Rightarrow> string option" where
  "nonempty None = None"
| "nonempty (Some s) = (if s = [] then None else Some s)"

definition or_else :: "string option \<Rightarrow> string \<Rightarrow> string" where
  "or_else x d = (case nonempty x of Some s \<Rightarrow> s | None \<Rightarrow> d)"

subsection \<open>Strings\<close>

text \<open>
  The code points below 256 for which \<^verbatim>\<open>str.isspace\<close> holds. The pattern \<^verbatim>\<open>\s\<close> of
  \<^verbatim>\<open>re\<close> and \<^verbatim>\<open>str.strip()\<close> use the same table.
\<close>

definition isspace :: "char \<Rightarrow> bool" where
  "isspace c = (c \<in> set [CHR 0x09, CHR 0x0A, CHR 0x0B, CHR 0x0C, CHR 0x0D,
      CHR 0x1C, CHR 0x1D, CHR 0x1E, CHR 0x1F, CHR 0x20, CHR 0x85, CHR 0xA0])"

definition strip :: "string \<Rightarrow> string" where
  "strip s = rev (dropWhile isspace (rev (dropWhile isspace s)))"

definition ascii_lower :: "char \<Rightarrow> char" where
  "ascii_lower c =
     (case map_of (zip ''ABCDEFGHIJKLMNOPQRSTUVWXYZ'' ''abcdefghijklmnopqrstuvwxyz'') c of
        Some l \<Rightarrow> l
      | None \<Rightarrow> c)"

definition startswith :: "string \<Rightarrow> string \<Rightarrow> bool" where
  "startswith s p = (take (length p) s = p)"

text \<open>\<^verbatim>\<open>p in s\<close> for two strings: \<open>p\<close> occurs in \<open>s\<close>.\<close>

fun contains :: "string \<Rightarrow> string \<Rightarrow> bool" where
  "contains [] p = (p = [])"
| "contains (c # cs) p = (startswith (c # cs) p \<or> contains cs p)"

section \<open>Sanitization of a fetched page\<close>

text \<open>
  Lines 509 to 519 of \<^verbatim>\<open>fetch_web_content\<close>:
  \<^verbatim>\<open>
  content = re.sub(r'<script[^>]*>.*?</script>', '', content, flags=re.DOTALL | re.IGNORECASE)
  content = re.sub(r'<style[^>]*>.*?</style>', '', content, flags=re.DOTALL | re.IGNORECASE)
  content = re.sub(r'<[^>]+>', '', content)
  content = re.sub(r'\s+', ' ', content)
  content = content.strip()
  \<close>
  \<^verbatim>\<open>re.sub\<close> scans from the left; at each position it tries the pattern, on a match it
  drops the matched text and goes on behind it, otherwise it keeps the character and moves
  one position on. None of the patterns matches the empty string.

  With \<^verbatim>\<open>re.IGNORECASE\<close> a lower-case ASCII letter of the pattern matches a code point
  below 256 exactly when \<^const>\<open>ascii_lower\<close> maps it to that letter. The pattern of
  \<open>imatch_prefix\<close> is in lower case.
\<close>

fun imatch_prefix :: "string \<Rightarrow> string \<Rightarrow> bool" where
  "imatch_prefix [] s = True"
| "imatch_prefix (p # ps) [] = False"
| "imatch_prefix (p # ps) (c # cs) = (ascii_lower c = p \<and> imatch_prefix ps cs)"

text \<open>
  The lazy \<^verbatim>\<open>.*?</script>\<close> (with \<^verbatim>\<open>re.DOTALL\<close>, so \<^verbatim>\<open>.\<close> matches every character):
  the text behind the first occurrence of the closing literal, if there is one.
\<close>

fun after_first :: "string \<Rightarrow> string \<Rightarrow> string option" where
  "after_first pat [] = (if pat = [] then Some [] else None)"
| "after_first pat (c # cs) =
     (if imatch_prefix pat (c # cs) then Some (drop (length pat) (c # cs))
      else after_first pat cs)"

text \<open>
  \<^verbatim>\<open><script[^>]*>.*?</script>\<close> tried at the head of \<open>s\<close>: the opening literal, the greedy
  \<^verbatim>\<open>[^>]*\<close> up to the first \<^verbatim>\<open>>\<close>, then the text up to the first closing literal. The
  greedy part cannot give a match by backing off, since the character behind a shorter run
  is not \<^verbatim>\<open>>\<close>. The result is the text behind the match.
\<close>

definition match_block :: "string \<Rightarrow> string \<Rightarrow> string \<Rightarrow> string option" where
  "match_block opening closing s =
     (if imatch_prefix opening s then
        (let r = drop (length opening) s in
         if CHR ''>'' \<in> set r
         then after_first closing (tl (dropWhile (\<lambda>x. x \<noteq> CHR ''>'') r))
         else None)
      else None)"

text \<open>
  \<^verbatim>\<open><[^>]+>\<close> tried at the head of \<open>s\<close>: \<^verbatim>\<open><\<close>, at least one character other than
  \<^verbatim>\<open>>\<close>, and the first \<^verbatim>\<open>>\<close> behind them.
\<close>

definition match_tag :: "string \<Rightarrow> string option" where
  "match_tag s =
     (case s of
        c # d # ds \<Rightarrow>
          if c = CHR ''<'' \<and> d \<noteq> CHR ''>'' \<and> CHR ''>'' \<in> set ds
          then Some (tl (dropWhile (\<lambda>x. x \<noteq> CHR ''>'') ds))
          else None
      | _ \<Rightarrow> None)"

lemma after_first_length: "after_first pat s = Some r \<Longrightarrow> length r \<le> length s"
  by (induction s) (auto split: if_splits)

lemma match_block_shorter:
  assumes "match_block opening closing s = Some r"
  shows "length r < length s"
proof -
  define t where "t = drop (length opening) s"
  from assms have gt: "CHR ''>'' \<in> set t"
    and af: "after_first closing (tl (dropWhile (\<lambda>x. x \<noteq> CHR ''>'') t)) = Some r"
    by (auto simp: match_block_def t_def Let_def split: if_splits)
  from gt have ne: "dropWhile (\<lambda>x. x \<noteq> CHR ''>'') t \<noteq> []" by auto
  have "length r \<le> length (tl (dropWhile (\<lambda>x. x \<noteq> CHR ''>'') t))"
    using af by (rule after_first_length)
  also have "\<dots> < length (dropWhile (\<lambda>x. x \<noteq> CHR ''>'') t)" using ne by simp
  also have "\<dots> \<le> length t" by (rule length_dropWhile_le)
  also have "\<dots> \<le> length s" by (simp add: t_def)
  finally show ?thesis .
qed

lemma match_tag_SomeD:
  "match_tag s = Some r \<Longrightarrow>
     \<exists>d ds. s = CHR ''<'' # d # ds \<and> d \<noteq> CHR ''>'' \<and> CHR ''>'' \<in> set ds
        \<and> r = tl (dropWhile (\<lambda>x. x \<noteq> CHR ''>'') ds)"
  unfolding match_tag_def by (simp split: list.splits if_splits)

lemma match_tag_shorter:
  assumes "match_tag s = Some r"
  shows "length r < length s"
proof -
  from match_tag_SomeD[OF assms] obtain d ds where s: "s = CHR ''<'' # d # ds"
    and r: "r = tl (dropWhile (\<lambda>x. x \<noteq> CHR ''>'') ds)"
    by auto
  have "length r \<le> length (dropWhile (\<lambda>x. x \<noteq> CHR ''>'') ds)" by (simp add: r)
  also have "\<dots> \<le> length ds" by (rule length_dropWhile_le)
  finally show ?thesis by (simp add: s)
qed

function strip_block :: "string \<Rightarrow> string \<Rightarrow> string \<Rightarrow> string" where
  "strip_block opening closing [] = []"
| "strip_block opening closing (c # cs) =
     (case match_block opening closing (c # cs) of
        Some rest \<Rightarrow> strip_block opening closing rest
      | None \<Rightarrow> c # strip_block opening closing cs)"
  by pat_completeness auto
termination
  by (relation "measure (\<lambda>(opening, closing, s). length s)")
     (auto dest: match_block_shorter)

function strip_tags :: "string \<Rightarrow> string" where
  "strip_tags [] = []"
| "strip_tags (c # cs) =
     (case match_tag (c # cs) of
        Some rest \<Rightarrow> strip_tags rest
      | None \<Rightarrow> c # strip_tags cs)"
  by pat_completeness auto
termination
  by (relation "measure length") (auto dest: match_tag_shorter)

text \<open>\<^verbatim>\<open>re.sub(r'\s+', ' ', content)\<close>: every maximal run of whitespace becomes one blank.\<close>

function sub_whitespace :: "string \<Rightarrow> string" where
  "sub_whitespace [] = []"
| "sub_whitespace (c # cs) =
     (if isspace c then CHR '' '' # sub_whitespace (dropWhile isspace cs)
      else c # sub_whitespace cs)"
  by pat_completeness auto
termination
  by (relation "measure length") (auto simp: less_Suc_eq_le length_dropWhile_le)

definition sanitize :: "string \<Rightarrow> string" where
  "sanitize content =
     strip (sub_whitespace (strip_tags
       (strip_block ''<style'' ''</style>''
         (strip_block ''<script'' ''</script>'' content))))"

section \<open>URL validation\<close>

text \<open>
  \<^verbatim>\<open>urllib.parse.urlparse\<close> is the standard library's (CPython 3.11); the resolver reads
  only \<^verbatim>\<open>scheme\<close> and \<^verbatim>\<open>netloc\<close> of its result, so the model computes these two:
  \<^verbatim>\<open>
  url = url.lstrip(_WHATWG_C0_CONTROL_OR_SPACE)
  for b in _UNSAFE_URL_BYTES_TO_REMOVE: url = url.replace(b, "")
  i = url.find(':')
  if i > 0 and url[0].isascii() and url[0].isalpha():
      for c in url[:i]:
          if c not in scheme_chars: break
      else:
          scheme, url = url[:i].lower(), url[i+1:]
  if url[:2] == '//':
      netloc, url = _splitnetloc(url, 2)
      if (('[' in netloc and ']' not in netloc) or
              (']' in netloc and '[' not in netloc)):
          raise ValueError("Invalid IPv6 URL")
      if '[' in netloc and ']' in netloc:
          bracketed_host = netloc.partition('[')[2].partition(']')[0]
          _check_bracketed_host(bracketed_host)
  \<close>
  The last check, \<^verbatim>\<open>_checknetloc\<close>, raises only when the NFKC form of a netloc that is
  not ASCII holds one of \<^verbatim>\<open>/?#@:\<close>, which no code point below 256 brings about.
\<close>

record ParseResult =
  scheme :: string
  netloc :: string

definition scheme_chars :: string where
  "scheme_chars =
     ''abcdefghijklmnopqrstuvwxyzABCDEFGHIJKLMNOPQRSTUVWXYZ0123456789+-.''"

definition ascii_letters :: string where
  "ascii_letters = ''abcdefghijklmnopqrstuvwxyzABCDEFGHIJKLMNOPQRSTUVWXYZ''"

definition c0_control_or_space :: "char \<Rightarrow> bool" where
  "c0_control_or_space c = (of_char c \<le> (32::nat))"

definition unsafe_url_byte :: "char \<Rightarrow> bool" where
  "unsafe_url_byte c = (c \<in> set [CHR 0x09, CHR 0x0D, CHR 0x0A])"

definition split_scheme :: "string \<Rightarrow> string \<times> string" where
  "split_scheme url =
     (let pre = takeWhile (\<lambda>c. c \<noteq> CHR '':'') url;
          post = dropWhile (\<lambda>c. c \<noteq> CHR '':'') url
      in if post \<noteq> [] \<and> pre \<noteq> [] \<and> hd pre \<in> set ascii_letters
            \<and> list_all (\<lambda>c. c \<in> set scheme_chars) pre
         then (map ascii_lower pre, tl post)
         else ([], url))"

definition splitnetloc :: "string \<Rightarrow> string" where
  "splitnetloc url = takeWhile (\<lambda>c. c \<notin> set ''/?#'') (drop 2 url)"

text \<open>\<^verbatim>\<open>s.split(sep)\<close> for a separator of one character.\<close>

fun split_on :: "char \<Rightarrow> string \<Rightarrow> string list" where
  "split_on sep [] = [[]]"
| "split_on sep (c # cs) =
     (let ps = split_on sep cs in if c = sep then [] # ps else (c # hd ps) # tl ps)"

text \<open>
  \<^verbatim>\<open>repr(s)\<close> of a string: it is quoted with \<^verbatim>\<open>"\<close> when it holds \<^verbatim>\<open>'\<close> and no
  \<^verbatim>\<open>"\<close>, otherwise with \<^verbatim>\<open>'\<close>; the backslash and the quote are escaped, tab, line
  feed and carriage return are written \<^verbatim>\<open>\t\<close>, \<^verbatim>\<open>\n\<close>, \<^verbatim>\<open>\r\<close>, and every other code
  point that is not printable is written \<^verbatim>\<open>\xNN\<close>.
\<close>

definition printable :: "char \<Rightarrow> bool" where
  "printable c =
     (let n = (of_char c :: nat)
      in 32 \<le> n \<and> n \<noteq> 127 \<and> \<not> (128 \<le> n \<and> n \<le> 160) \<and> n \<noteq> 173)"

definition repr_char :: "char \<Rightarrow> char \<Rightarrow> string" where
  "repr_char quote c =
     (if c = quote \<or> c = CHR 0x5C then [CHR 0x5C, c]
      else if c = CHR 0x09 then [CHR 0x5C, CHR ''t'']
      else if c = CHR 0x0A then [CHR 0x5C, CHR ''n'']
      else if c = CHR 0x0D then [CHR 0x5C, CHR ''r'']
      else if printable c then [c]
      else [CHR 0x5C, CHR ''x'', ''0123456789abcdef'' ! (of_char c div 16),
            ''0123456789abcdef'' ! (of_char c mod 16)])"

definition repr :: "string \<Rightarrow> string" where
  "repr s =
     (let quote = (if CHR 0x27 \<in> set s \<and> CHR 0x22 \<notin> set s then CHR 0x22 else CHR 0x27)
      in [quote] @ concat (map (repr_char quote) s) @ [quote])"

text \<open>
  The addresses \<^verbatim>\<open>ipaddress.IPv4Address\<close> accepts: four octets separated by dots, each one
  to three decimal digits without a leading zero and at most 255.
\<close>

definition decimal_value :: "string \<Rightarrow> nat" where
  "decimal_value s = foldl (\<lambda>n c. 10 * n + (of_char c - 48)) 0 s"

definition parse_octet :: "string \<Rightarrow> bool" where
  "parse_octet octet_str =
     (octet_str \<noteq> [] \<and> list_all (\<lambda>c. c \<in> set ''0123456789'') octet_str
      \<and> length octet_str \<le> 3
      \<and> \<not> (octet_str \<noteq> ''0'' \<and> hd octet_str = CHR ''0'')
      \<and> decimal_value octet_str \<le> 255)"

definition IPv4Address :: "string \<Rightarrow> bool" where
  "IPv4Address addr_str =
     (CHR ''/'' \<notin> set addr_str \<and> addr_str \<noteq> []
      \<and> length (split_on (CHR ''.'') addr_str) = 4
      \<and> list_all parse_octet (split_on (CHR ''.'') addr_str))"

text \<open>
  The addresses \<^verbatim>\<open>ipaddress.IPv6Address\<close> accepts. A hextet is one to four hexadecimal
  digits. \<open>hextets\<close> is \<^verbatim>\<open>_ip_int_from_string\<close> behind the point where an IPv4 suffix has
  been replaced: at most nine parts; at most one empty part that is neither the first nor
  the last (the \<^verbatim>\<open>::\<close>); with it, an empty first or last part must belong to it, and at
  most seven other parts may stand, each a hextet; without it, exactly eight hextets.
\<close>

definition parse_hextet :: "string \<Rightarrow> bool" where
  "parse_hextet hextet_str =
     (list_all (\<lambda>c. c \<in> set ''0123456789ABCDEFabcdef'') hextet_str
      \<and> length hextet_str \<le> 4 \<and> hextet_str \<noteq> [])"

definition hextets :: "string list \<Rightarrow> bool" where
  "hextets parts =
     (let n = length parts
      in n \<le> 9 \<and>
         (case filter (\<lambda>i. parts ! i = []) [1..<n - 1] of
            [] \<Rightarrow> n = 8 \<and> list_all parse_hextet parts
          | [skip_index] \<Rightarrow>
              (let parts_hi = (if hd parts = [] then skip_index - 1 else skip_index);
                   parts_lo = (if last parts = [] then n - skip_index - 2
                               else n - skip_index - 1)
               in (if hd parts = [] then parts_hi = 0 else True)
                  \<and> (if last parts = [] then parts_lo = 0 else True)
                  \<and> parts_hi + parts_lo \<le> 7
                  \<and> list_all parse_hextet (take parts_hi parts)
                  \<and> list_all parse_hextet (drop (n - parts_lo) parts))
          | _ \<Rightarrow> False))"

text \<open>
  The two hextets that replace a valid IPv4 suffix are always hextets, so \<open>''0''\<close> stands
  for each of them.
\<close>

definition ip_int_from_string :: "string \<Rightarrow> bool" where
  "ip_int_from_string ip_str =
     (ip_str \<noteq> [] \<and>
      (let parts = split_on (CHR '':'') ip_str
       in 3 \<le> length parts \<and>
          (if CHR ''.'' \<in> set (last parts)
           then IPv4Address (last parts) \<and> hextets (butlast parts @ [''0'', ''0''])
           else hextets parts)))"

definition IPv6Address :: "string \<Rightarrow> bool" where
  "IPv6Address addr_str =
     (CHR ''/'' \<notin> set addr_str \<and>
      (let addr = takeWhile (\<lambda>c. c \<noteq> CHR ''%'') addr_str;
           scoped = dropWhile (\<lambda>c. c \<noteq> CHR ''%'') addr_str
       in (scoped = [] \<or> (tl scoped \<noteq> [] \<and> CHR ''%'' \<notin> set (tl scoped)))
          \<and> ip_int_from_string addr))"

text \<open>
  \<^verbatim>\<open>_check_bracketed_host\<close>:
  \<^verbatim>\<open>
  if hostname.startswith('v'):
      if not re.match(r"\Av[a-fA-F0-9]+\..+\Z", hostname):
          raise ValueError(f"IPvFuture address is invalid")
  else:
      ip = ipaddress.ip_address(hostname)
      if isinstance(ip, ipaddress.IPv4Address):
          raise ValueError(f"An IPv4 address cannot be in brackets")
  \<close>
  \<^verbatim>\<open>ip_address\<close> tries \<^verbatim>\<open>IPv4Address\<close>, then \<^verbatim>\<open>IPv6Address\<close>, and raises a
  \<^verbatim>\<open>ValueError\<close> when neither accepts.
\<close>

definition ipvfuture :: "string \<Rightarrow> bool" where
  "ipvfuture hostname =
     (let digits = takeWhile (\<lambda>c. c \<in> set ''0123456789ABCDEFabcdef'') (tl hostname);
          behind = dropWhile (\<lambda>c. c \<in> set ''0123456789ABCDEFabcdef'') (tl hostname)
      in digits \<noteq> [] \<and> behind \<noteq> [] \<and> hd behind = CHR ''.''
         \<and> tl behind \<noteq> [] \<and> CHR 0x0A \<notin> set (tl behind))"

definition check_bracketed_host :: "string \<Rightarrow> exn option" where
  "check_bracketed_host hostname =
     (if startswith hostname ''v'' then
        (if ipvfuture hostname then None
         else Some (ValueError ''IPvFuture address is invalid''))
      else if IPv4Address hostname then
        Some (ValueError ''An IPv4 address cannot be in brackets'')
      else if IPv6Address hostname then None
      else Some (ValueError (repr hostname
             @ '' does not appear to be an IPv4 or IPv6 address'')))"

definition urlparse :: "string \<Rightarrow> exn + ParseResult" where
  "urlparse url0 =
     (let url1 = filter (\<lambda>c. \<not> unsafe_url_byte c) (dropWhile c0_control_or_space url0);
          (sch, url2) = split_scheme url1
      in if take 2 url2 = ''//'' then
           (let nl = splitnetloc url2
            in if (CHR ''['' \<in> set nl \<and> CHR '']'' \<notin> set nl)
                  \<or> (CHR '']'' \<in> set nl \<and> CHR ''['' \<notin> set nl)
               then Inl (ValueError ''Invalid IPv6 URL'')
               else if CHR ''['' \<in> set nl \<and> CHR '']'' \<in> set nl then
                 (case check_bracketed_host
                         (takeWhile (\<lambda>c. c \<noteq> CHR '']'')
                            (tl (dropWhile (\<lambda>c. c \<noteq> CHR ''['') nl))) of
                    Some e \<Rightarrow> Inl e
                  | None \<Rightarrow> Inr \<lparr>scheme = sch, netloc = nl\<rparr>)
               else Inr \<lparr>scheme = sch, netloc = nl\<rparr>)
         else Inr \<lparr>scheme = sch, netloc = []\<rparr>)"

section \<open>The backends and the network\<close>

text \<open>
  A value decoded from JSON, as \<^verbatim>\<open>json.loads\<close> and \<^verbatim>\<open>response.json()\<close> return it and as
  \<^verbatim>\<open>json.dumps\<close> and the \<^verbatim>\<open>json=\<close> argument of \<^verbatim>\<open>requests.post\<close> take it. A \<^verbatim>\<open>dict\<close>
  is the list of its items; a lookup takes the first item with the key.
\<close>

datatype json =
    JNull
  | JBool bool
  | JInt int
  | JFloat real
  | JStr string
  | JArr "json list"
  | JObj "(string \<times> json) list"

fun type_name :: "json \<Rightarrow> string" where
  "type_name JNull = ''NoneType''"
| "type_name (JBool b) = ''bool''"
| "type_name (JInt i) = ''int''"
| "type_name (JFloat x) = ''float''"
| "type_name (JStr s) = ''str''"
| "type_name (JArr xs) = ''list''"
| "type_name (JObj kv) = ''dict''"

text \<open>The truth value of a decoded value, as \<^verbatim>\<open>if\<close> tests it.\<close>

fun truthy :: "json \<Rightarrow> bool" where
  "truthy JNull = False"
| "truthy (JBool b) = b"
| "truthy (JInt i) = (i \<noteq> 0)"
| "truthy (JFloat x) = (x \<noteq> 0)"
| "truthy (JStr s) = (s \<noteq> [])"
| "truthy (JArr xs) = (xs \<noteq> [])"
| "truthy (JObj kv) = (kv \<noteq> [])"

definition no_attribute :: "json \<Rightarrow> string \<Rightarrow> exn" where
  "no_attribute v a =
     AttributeError ([CHR 0x27] @ type_name v @ [CHR 0x27] @ '' object has no attribute ''
        @ [CHR 0x27] @ a @ [CHR 0x27])"

text \<open>\<^verbatim>\<open>key in data\<close>.\<close>

fun py_in :: "string \<Rightarrow> json \<Rightarrow> exn + bool" where
  "py_in k (JObj kv) = Inr (k \<in> set (map fst kv))"
| "py_in k (JStr s) = Inr (contains s k)"
| "py_in k (JArr xs) = Inr (JStr k \<in> set xs)"
| "py_in k v =
     Inl (TypeError (''argument of type '' @ [CHR 0x27] @ type_name v @ [CHR 0x27]
        @ '' is not iterable''))"

text \<open>\<^verbatim>\<open>data[key]\<close> for a string key.\<close>

fun py_getitem :: "json \<Rightarrow> string \<Rightarrow> exn + json" where
  "py_getitem (JObj kv) k = (case map_of kv k of Some v \<Rightarrow> Inr v | None \<Rightarrow> Inl (KeyError k))"
| "py_getitem (JStr s) k =
     Inl (TypeError (''string indices must be integers, not '' @ [CHR 0x27] @ ''str''
        @ [CHR 0x27]))"
| "py_getitem (JArr xs) k = Inl (TypeError ''list indices must be integers or slices, not str'')"
| "py_getitem v k =
     Inl (TypeError ([CHR 0x27] @ type_name v @ [CHR 0x27] @ '' object is not subscriptable''))"

text \<open>\<^verbatim>\<open>data.get(key, default)\<close>.\<close>

fun py_get :: "json \<Rightarrow> string \<Rightarrow> json \<Rightarrow> exn + json" where
  "py_get (JObj kv) k d = Inr (case map_of kv k of Some v \<Rightarrow> v | None \<Rightarrow> d)"
| "py_get v k d = Inl (no_attribute v ''get'')"

text \<open>
  A \<^verbatim>\<open>requests.Response\<close>. \<open>resp_json\<close> is what \<^verbatim>\<open>response.json()\<close> returns or raises.
  \<^verbatim>\<open>response.iter_lines()\<close> yields the lines \<open>resp_lines\<close> and then stops, or raises
  \<open>resp_lines_end\<close> behind them. A line is empty (\<open>Blank\<close>) or carries what
  \<^verbatim>\<open>json.loads(line.decode('utf-8'))\<close> returns or raises on it.
\<close>

datatype line = Blank | Line "exn + json"

record response =
  status_code :: nat
  reason :: string
  resp_url :: string
  resp_text :: string
  resp_json :: "exn + json"
  resp_lines :: "line list"
  resp_lines_end :: "exn option"

text \<open>
  The keyword arguments of \<^verbatim>\<open>openai.ChatCompletion.create\<close>, and what the object it returns
  gives: \<open>message_content\<close> is the outcome of
  \<^verbatim>\<open>response.choices[0].message.content\<close>; iterating a streamed response yields one chunk
  for each element of \<open>deltas\<close>, the outcome of \<^verbatim>\<open>chunk.choices[0].delta.content\<close> on it,
  and then stops, or raises \<open>deltas_end\<close> behind them.
\<close>

record chat_request =
  model :: string
  messages :: "(string \<times> string) list"
  temperature :: real
  max_tokens :: nat
  stream :: bool

record chat_response =
  message_content :: "exn + string option"
  deltas :: "(exn + string option) list"
  deltas_end :: "exn option"

text \<open>
  What a request handler reads from outside: the module's configuration, the answers of
  the network, and the successive values of \<^verbatim>\<open>time.time()\<close> (\<open>time_time env 0\<close> at entry,
  \<open>time_time env 1\<close> when the elapsed time is taken).
\<close>

record env =
  openai_api_key :: "string option"
  OLLAMA_BASE_URL :: string
  requests_get :: "string \<Rightarrow> exn + response"
  requests_post :: "string \<Rightarrow> json \<Rightarrow> exn + response"
  ChatCompletion_create :: "chat_request \<Rightarrow> exn + chat_response"
  time_time :: "nat \<Rightarrow> real"

text \<open>
  Every network call a handler makes is recorded, in order. A handler returns the calls it
  made and its result.
\<close>

datatype call =
    Requests_get string
  | Requests_post string json
  | Openai_create chat_request

type_synonym 'a io = "call list \<times> (exn + 'a)"

section \<open>The content resolver\<close>

text \<open>
  \<^verbatim>\<open>response.raise_for_status()\<close> raises an \<^verbatim>\<open>HTTPError\<close>, a \<^verbatim>\<open>RequestException\<close>, for
  a status from 400 to 599.
\<close>

definition raise_for_status :: "response \<Rightarrow> exn option" where
  "raise_for_status r =
     (if 400 \<le> status_code r \<and> status_code r < 500 then
        Some (RequestException (str_nat (status_code r) @ '' Client Error: '' @ reason r
          @ '' for url: '' @ resp_url r))
      else if 500 \<le> status_code r \<and> status_code r < 600 then
        Some (RequestException (str_nat (status_code r) @ '' Server Error: '' @ reason r
          @ '' for url: '' @ resp_url r))
      else None)"

text \<open>
  The two handlers of \<^verbatim>\<open>fetch_web_content\<close>:
  \<^verbatim>\<open>
  except requests.exceptions.RequestException as e:
      raise HTTPException(status_code=400, detail=f"Failed to fetch URL: {str(e)}")
  except Exception as e:
      raise HTTPException(status_code=400, detail=f"Error processing URL: {str(e)}")
  \<close>
\<close>

definition fetch_handler :: "exn \<Rightarrow> exn" where
  "fetch_handler e =
     (if is_RequestException e then HTTPException 400 (''Failed to fetch URL: '' @ str_exn e)
      else HTTPException 400 (''Error processing URL: '' @ str_exn e))"

definition fetch_web_content :: "env \<Rightarrow> string \<Rightarrow> string io" where
  "fetch_web_content env url =
     (case urlparse url of
        Inl e \<Rightarrow> ([], Inl (fetch_handler e))
      | Inr parsed_url \<Rightarrow>
          if scheme parsed_url = [] \<or> netloc parsed_url = [] then
            ([], Inl (fetch_handler (ValueError ''Invalid URL format'')))
          else
            (let url' = (if startswith url ''http://'' \<or> startswith url ''https://''
                         then url else ''https://'' @ url)
             in case requests_get env url' of
                  Inl e \<Rightarrow> ([Requests_get url'], Inl (fetch_handler e))
                | Inr response \<Rightarrow>
                    (case raise_for_status response of
                       Some e \<Rightarrow> ([Requests_get url'], Inl (fetch_handler e))
                     | None \<Rightarrow>
                         (let content = sanitize (resp_text response);
                              content = (if length content > 8000
                                         then take 8000 content @ ''... [Content truncated]''
                                         else content)
                          in ([Requests_get url'], Inr content)))))"

section \<open>The prompt builder\<close>

definition join_lines :: "string list \<Rightarrow> string" where
  "join_lines ls = concat (map (\<lambda>l. l @ [CHR 0x0A]) (butlast ls)) @ last ls"

definition DEFAULT_SYSTEM_PROMPT :: string where
  \<open>DEFAULT_SYSTEM_PROMPT = join_lines
     [''You are a JSON structuring engine.'',
      '''',
      ''RULES:'',
      ''1. Take the input EXACTLY as provided by the user.'',
      ''2. Do NOT interpret, summarize, rewrite, or add any information.'',
      ''3. Preserve ALL words, spelling, punctuation, symbols, line breaks, and formatting EXACTLY as they appear.'',
      ''4. Do NOT infer product names, descriptions, or create extra data not explicitly present in the input.'',
      ''5. Output ONLY valid JSON. Do NOT include explanations or any text outside the JSON.'',
      ''6. If unsure, wrap the input exactly as-is into the "raw_input" field.'',
      '''',
      ''Your output format must always be:'',
      '''',
      ''{'',
      ''  "structured": {'',
      ''    // Create keys ONLY for clearly identifiable sections or labels in the input.'',
      ''    // Use the exact wording from the input for the values.'',
      ''    // If no structure is identifiable, leave this object empty.'',
      ''  }'',
      ''}'',
      '''',
      ''- Do NOT rephrase or interpret values when filling fields.'',
      ''- If there are no fields to extract, leave "structured" as an empty object.'']\<close>

text \<open>
  \<^verbatim>\<open>build_prompt\<close> is modelled like every other function of the module, as a handler
  that is given the environment and returns the calls it made and its result. Its body is
  the assignment of \<^verbatim>\<open>source_info\<close> and the \<^verbatim>\<open>return\<close> of one f-string over
  \<^verbatim>\<open>text\<close> and \<^verbatim>\<open>source_info\<close>: it reads no global, calls nothing and has no
  \<^verbatim>\<open>raise\<close>.
\<close>

definition build_prompt :: "env \<Rightarrow> string \<Rightarrow> string \<Rightarrow> string io" where
  "build_prompt env text source_type =
     (let source_info = (if source_type = ''url'' then ''web page content'' else ''text'')
      in ([], Inr (join_lines
        ['''',
         ''Please process the following '' @ source_info
            @ '' and return a well-formatted JSON response:'',
         '''',
         text,
         '''',
         ''Requirements:'',
         ''- Return valid JSON format'',
         ''- Include relevant information extracted or generated from the '' @ source_info,
         ''- Structure the response logically'',
         ''- If the '' @ source_info @ '' contains questions, provide answers'',
         ''- If the '' @ source_info @ '' contains data, organize it appropriately'',
         ''- If processing a web page, extract key information, summarize content, and identify main topics'',
         ''''])))"

section \<open>The provider adapters\<close>

subsection \<open>Single-shot calls\<close>

text \<open>
  \<^verbatim>\<open>call_openai\<close>. The chat request carries the system content and the prompt as its two
  messages.
\<close>

definition chat_completion :: "string \<Rightarrow> string \<Rightarrow> string \<Rightarrow> bool \<Rightarrow> chat_request" where
  "chat_completion m system_content prompt streamed =
     \<lparr>model = m,
      messages = [(''system'', system_content), (''user'', prompt)],
      temperature = 0.7,
      max_tokens = 1000,
      stream = streamed\<rparr>"

definition call_openai :: "env \<Rightarrow> string \<Rightarrow> string option \<Rightarrow> string option \<Rightarrow> string io" where
  "call_openai env prompt model_name system_prompt =
     (if nonempty (openai_api_key env) = None then
        ([], Inl (HTTPException 500
           ''OpenAI API key not configured. Please set OPENAI_API_KEY environment variable.''))
      else
        (let m = or_else model_name ''gpt-3.5-turbo'';
             system_content = or_else system_prompt DEFAULT_SYSTEM_PROMPT;
             req = chat_completion m system_content prompt False
         in case ChatCompletion_create env req of
              Inl e \<Rightarrow> ([Openai_create req], Inl e)
            | Inr response \<Rightarrow>
                (case message_content response of
                   Inl e \<Rightarrow> ([Openai_create req], Inl e)
                 | Inr None \<Rightarrow>
                     ([Openai_create req], Inl (no_attribute JNull ''strip''))
                 | Inr (Some content) \<Rightarrow> ([Openai_create req], Inr (strip content)))))"

text \<open>
  The body both Ollama calls post to \<^verbatim>\<open>f"{OLLAMA_BASE_URL}/api/generate"\<close> (with
  \<^verbatim>\<open>timeout=120\<close>):
  \<^verbatim>\<open>
  json={"model": model, "prompt": f"{system_content}\n\n{prompt}", "stream": False,
        "options": {"temperature": 0.7, "num_predict": 1000}}
  \<close>
\<close>

definition generate_payload :: "string \<Rightarrow> string \<Rightarrow> string \<Rightarrow> bool \<Rightarrow> json" where
  "generate_payload m system_content prompt streamed =
     JObj [(''model'', JStr m),
           (''prompt'', JStr (system_content @ [CHR 0x0A, CHR 0x0A] @ prompt)),
           (''stream'', JBool streamed),
           (''options'', JObj [(''temperature'', JFloat 0.7), (''num_predict'', JInt 1000)])]"

text \<open>
  The two handlers of \<^verbatim>\<open>call_ollama\<close>; its \<^verbatim>\<open>try\<close> block holds the whole call, so the
  \<^verbatim>\<open>Exception\<close> raised for a status other than 200 passes through the second one as well.
  \<^verbatim>\<open>
  except requests.exceptions.RequestException as e:
      raise Exception(f"Failed to connect to Ollama at {OLLAMA_BASE_URL}: {str(e)}")
  except Exception as e:
      raise Exception(f"Ollama API error: {str(e)}")
  \<close>
\<close>

definition ollama_handler :: "env \<Rightarrow> exn \<Rightarrow> exn" where
  "ollama_handler env e =
     (if is_RequestException e
      then Exception (''Failed to connect to Ollama at '' @ OLLAMA_BASE_URL env @ '': ''
             @ str_exn e)
      else Exception (''Ollama API error: '' @ str_exn e))"

definition call_ollama :: "env \<Rightarrow> string \<Rightarrow> string option \<Rightarrow> string option \<Rightarrow> string io" where
  "call_ollama env prompt model_name system_prompt =
     (let m = or_else model_name ''llama2'';
          system_content = or_else system_prompt DEFAULT_SYSTEM_PROMPT;
          target = OLLAMA_BASE_URL env @ ''/api/generate'';
          payload = generate_payload m system_content prompt False
      in case requests_post env target payload of
           Inl e \<Rightarrow> ([Requests_post target payload], Inl (ollama_handler env e))
         | Inr response \<Rightarrow>
             if status_code response \<noteq> 200 then
               ([Requests_post target payload],
                Inl (ollama_handler env (Exception (''Ollama API error: ''
                  @ str_nat (status_code response) @ '' - '' @ resp_text response))))
             else
               (case resp_json response of
                  Inl e \<Rightarrow> ([Requests_post target payload], Inl (ollama_handler env e))
                | Inr data \<Rightarrow>
                    (case py_get data ''response'' (JStr []) of
                       Inl e \<Rightarrow> ([Requests_post target payload], Inl (ollama_handler env e))
                     | Inr (JStr response_text) \<Rightarrow>
                         ([Requests_post target payload], Inr (strip response_text))
                     | Inr v \<Rightarrow>
                         ([Requests_post target payload],
                          Inl (ollama_handler env (no_attribute v ''strip''))))))"

subsection \<open>Streaming calls\<close>

text \<open>
  A streaming call yields text frames \<^verbatim>\<open>f"data: {json.dumps(frame)}\n\n"\<close>. The model
  keeps the dictionary handed to \<^verbatim>\<open>json.dumps\<close>, one for each frame, in the order the
  generator yields them.
\<close>

type_synonym frame = json

definition chunk_frame :: "json \<Rightarrow> json \<Rightarrow> frame" where
  "chunk_frame chunk done_value = JObj [(''chunk'', chunk), (''done'', done_value)]"

definition done_frame :: "real \<Rightarrow> string \<Rightarrow> string \<Rightarrow> string \<Rightarrow> frame" where
  "done_frame processing_time model_used source_type source =
     JObj [(''done'', JBool True),
           (''processing_time'', JFloat processing_time),
           (''model_used'', JStr model_used),
           (''source_type'', JStr source_type),
           (''source'', JStr source)]"

definition error_frame :: "string \<Rightarrow> frame" where
  "error_frame message = JObj [(''error'', JStr message)]"

text \<open>\<^verbatim>\<open>full_response += chunk\<close>, where \<^verbatim>\<open>full_response\<close> is a string.\<close>

fun str_iadd :: "string \<Rightarrow> json \<Rightarrow> exn + string" where
  "str_iadd s (JStr c) = Inr (s @ c)"
| "str_iadd s v =
     Inl (TypeError (''can only concatenate str (not '' @ [CHR 0x22] @ type_name v
        @ [CHR 0x22] @ '') to str''))"

text \<open>
  The body of the loop of \<^verbatim>\<open>stream_ollama_response\<close> on one line that is not empty:
  \<^verbatim>\<open>
  data = json.loads(line.decode('utf-8'))
  if 'response' in data:
      chunk = data['response']
      full_response += chunk
      yield f"data: {json.dumps({'chunk': chunk, 'done': data.get('done', False)})}\n\n"
  if data.get('done', False):
      processing_time = time.time() - start_time
      yield f"data: {json.dumps({'done': True, 'processing_time': processing_time, ...})}\n\n"
      break
  \<close>
  The result is the frames it yields, and then the exception it raises, or whether it left
  the loop by \<^verbatim>\<open>break\<close> together with the new \<^verbatim>\<open>full_response\<close>.
\<close>

definition ollama_line ::
  "real \<Rightarrow> string \<Rightarrow> string \<Rightarrow> string \<Rightarrow> string \<Rightarrow> exn + json
     \<Rightarrow> frame list \<times> (exn + bool \<times> string)" where
  "ollama_line processing_time m source_type source full_response decoded =
     (case decoded of
        Inl e \<Rightarrow> ([], Inl e)
      | Inr data \<Rightarrow>
          (case py_in ''response'' data of
             Inl e \<Rightarrow> ([], Inl e)
           | Inr present \<Rightarrow>
               (case (if present then
                        (case py_getitem data ''response'' of
                           Inl e \<Rightarrow> Inl e
                         | Inr chunk \<Rightarrow>
                             (case str_iadd full_response chunk of
                                Inl e \<Rightarrow> Inl e
                              | Inr full_response' \<Rightarrow>
                                  (case py_get data ''done'' (JBool False) of
                                     Inl e \<Rightarrow> Inl e
                                   | Inr d \<Rightarrow> Inr ([chunk_frame chunk d], full_response'))))
                      else Inr ([], full_response)) of
                  Inl e \<Rightarrow> ([], Inl e)
                | Inr (fs, full_response') \<Rightarrow>
                    (case py_get data ''done'' (JBool False) of
                       Inl e \<Rightarrow> (fs, Inl e)
                     | Inr d \<Rightarrow>
                         if truthy d then
                           (fs @ [done_frame processing_time (''ollama:'' @ m) source_type source],
                            Inr (True, full_response'))
                         else (fs, Inr (False, full_response'))))))"

text \<open>
  The loop \<^verbatim>\<open>for line in response.iter_lines()\<close>: an empty line is skipped, a
  \<^verbatim>\<open>json.JSONDecodeError\<close> in the body is caught and the loop goes on, any other exception
  leaves the loop. The result is the frames yielded and the exception that left the loop, if
  any (one raised by the body or by \<^verbatim>\<open>iter_lines\<close>).
\<close>

fun ollama_lines ::
  "real \<Rightarrow> string \<Rightarrow> string \<Rightarrow> string \<Rightarrow> string \<Rightarrow> line list \<Rightarrow> exn option
     \<Rightarrow> frame list \<times> exn option" where
  "ollama_lines processing_time m source_type source full_response [] ending = ([], ending)"
| "ollama_lines processing_time m source_type source full_response (Blank # ls) ending =
     ollama_lines processing_time m source_type source full_response ls ending"
| "ollama_lines processing_time m source_type source full_response (Line decoded # ls) ending =
     (case ollama_line processing_time m source_type source full_response decoded of
        (fs, Inl e) \<Rightarrow>
          if is_JSONDecodeError e then
            (let (gs, r) =
               ollama_lines processing_time m source_type source full_response ls ending
             in (fs @ gs, r))
          else (fs, Some e)
      | (fs, Inr (left, full_response')) \<Rightarrow>
          if left then (fs, None)
          else
            (let (gs, r) =
               ollama_lines processing_time m source_type source full_response' ls ending
             in (fs @ gs, r)))"

text \<open>
  The two handlers of \<^verbatim>\<open>stream_ollama_response\<close>:
  \<^verbatim>\<open>
  except requests.exceptions.RequestException as e:
      yield f"data: {json.dumps({'error': f'Failed to connect to Ollama: {str(e)}'})}\n\n"
  except Exception as e:
      yield f"data: {json.dumps({'error': f'Ollama API error: {str(e)}'})}\n\n"
  \<close>
\<close>

definition ollama_stream_handler :: "exn \<Rightarrow> frame" where
  "ollama_stream_handler e =
     (if is_RequestException e then error_frame (''Failed to connect to Ollama: '' @ str_exn e)
      else error_frame (''Ollama API error: '' @ str_exn e))"

definition stream_ollama_response ::
  "env \<Rightarrow> string \<Rightarrow> string option \<Rightarrow> string \<Rightarrow> string \<Rightarrow> real \<Rightarrow> string option
     \<Rightarrow> call list \<times> frame list" where
  "stream_ollama_response env prompt model_name source_type source start_time system_prompt =
     (let m = or_else model_name ''llama2'';
          system_content = or_else system_prompt DEFAULT_SYSTEM_PROMPT;
          target = OLLAMA_BASE_URL env @ ''/api/generate'';
          payload = generate_payload m system_content prompt True
      in case requests_post env target payload of
           Inl e \<Rightarrow> ([Requests_post target payload], [ollama_stream_handler e])
         | Inr response \<Rightarrow>
             if status_code response \<noteq> 200 then
               ([Requests_post target payload],
                [error_frame (''Ollama API error: '' @ str_nat (status_code response))])
             else
               (case ollama_lines (time_time env 1 - start_time) m source_type source []
                       (resp_lines response) (resp_lines_end response) of
                  (fs, None) \<Rightarrow> ([Requests_post target payload], fs)
                | (fs, Some e) \<Rightarrow>
                    ([Requests_post target payload], fs @ [ollama_stream_handler e])))"

text \<open>
  The loop of \<^verbatim>\<open>stream_openai_response\<close>:
  \<^verbatim>\<open>
  for chunk in response:
      if chunk.choices[0].delta.content:
          content = chunk.choices[0].delta.content
          full_response += content
          yield f"data: {json.dumps({'chunk': content, 'done': False})}\n\n"
  \<close>
\<close>

fun openai_chunks ::
  "string \<Rightarrow> (exn + string option) list \<Rightarrow> exn option \<Rightarrow> frame list \<times> exn option" where
  "openai_chunks full_response [] ending = ([], ending)"
| "openai_chunks full_response (Inl e # ds) ending = ([], Some e)"
| "openai_chunks full_response (Inr None # ds) ending =
     openai_chunks full_response ds ending"
| "openai_chunks full_response (Inr (Some content) # ds) ending =
     (if content = [] then openai_chunks full_response ds ending
      else
        (let (gs, r) = openai_chunks (full_response @ content) ds ending
         in (chunk_frame (JStr content) (JBool False) # gs, r)))"

definition stream_openai_response ::
  "env \<Rightarrow> string \<Rightarrow> string option \<Rightarrow> string \<Rightarrow> string \<Rightarrow> real \<Rightarrow> string option
     \<Rightarrow> call list \<times> frame list" where
  "stream_openai_response env prompt model_name source_type source start_time system_prompt =
     (if nonempty (openai_api_key env) = None then
        ([], [error_frame ''OpenAI API key not configured''])
      else
        (let m = or_else model_name ''gpt-3.5-turbo'';
             system_content = or_else system_prompt DEFAULT_SYSTEM_PROMPT;
             req = chat_completion m system_content prompt True
         in case ChatCompletion_create env req of
              Inl e \<Rightarrow> ([Openai_create req], [error_frame (''OpenAI API error: '' @ str_exn e)])
            | Inr response \<Rightarrow>
                (case openai_chunks [] (deltas response) (deltas_end response) of
                   (fs, Some e) \<Rightarrow>
                     ([Openai_create req], fs @ [error_frame (''OpenAI API error: '' @ str_exn e)])
                 | (fs, None) \<Rightarrow>
                     ([Openai_create req],
                      fs @ [done_frame (time_time env 1 - start_time) (''openai:'' @ m)
                              source_type source]))))"

section \<open>The endpoints\<close>

record ProcessRequest =
  text' :: "string option"
  url :: "string option"
  task_type :: "string option"
  format_type :: "string option"
  additional_context :: "string option"
  model_provider :: "string option"
  model_name :: "string option"
  system_prompt :: "string option"

record ProcessResponse =
  success :: bool
  result :: string
  model_used :: string
  processing_time :: real
  source_type :: string
  source :: string

text \<open>
  Both endpoints start with the same statement, which determines \<^verbatim>\<open>source_type\<close>,
  \<^verbatim>\<open>source_text\<close> and \<^verbatim>\<open>source\<close>:
  \<^verbatim>\<open>
  if request.url:
      source_type = "url"
      source_text = await fetch_web_content(request.url)
      source = request.url
  elif request.text:
      source_type = "text"
      source_text = request.text
      source = request.text[:100] + "..." if len(request.text) > 100 else request.text
  else:
      raise HTTPException(status_code=400,
          detail="Either 'text' or 'url' must be provided for processing.")
  \<close>
  \<open>text'\<close> is the field \<^verbatim>\<open>text\<close> of the request.
\<close>

definition determine_source :: "env \<Rightarrow> ProcessRequest \<Rightarrow> (string \<times> string \<times> string) io" where
  "determine_source env request =
     (case nonempty (url request) of
        Some u \<Rightarrow>
          (case fetch_web_content env u of
             (cs, Inl e) \<Rightarrow> (cs, Inl e)
           | (cs, Inr source_text) \<Rightarrow> (cs, Inr (''url'', source_text, u)))
      | None \<Rightarrow>
          (case nonempty (text' request) of
             Some t \<Rightarrow>
               ([], Inr (''text'', t, if length t > 100 then take 100 t @ ''...'' else t))
           | None \<Rightarrow>
               ([], Inl (HTTPException 400
                  ''Either 'text' or 'url' must be provided for processing.''))))"

text \<open>
  The \<^verbatim>\<open>try\<close> block of \<^verbatim>\<open>process_with_ai\<close>, and the endpoint with its handler
  \<^verbatim>\<open>
  except Exception as e:
      raise HTTPException(status_code=500, detail=f"AI processing failed: {str(e)}")
  \<close>
  which catches every exception of the block, an \<^verbatim>\<open>HTTPException\<close> included.
\<close>

definition process_with_ai_try :: "env \<Rightarrow> ProcessRequest \<Rightarrow> ProcessResponse io" where
  "process_with_ai_try env request =
     (case determine_source env request of
        (cs, Inl e) \<Rightarrow> (cs, Inl e)
      | (cs, Inr (st, source_text, src)) \<Rightarrow>
          (case build_prompt env source_text st of
             (cs1, Inl e) \<Rightarrow> (cs @ cs1, Inl e)
           | (cs1, Inr prompt) \<Rightarrow>
               (let (cs', r, used) =
                      (if model_provider request = Some ''ollama'' then
                         (let (cs', r) = call_ollama env prompt (model_name request)
                                           (system_prompt request)
                          in (cs', r, ''ollama:'' @ or_else (model_name request) ''llama2''))
                       else
                         (let (cs', r) = call_openai env prompt (model_name request)
                                           (system_prompt request)
                          in (cs', r,
                              ''openai:'' @ or_else (model_name request) ''gpt-3.5-turbo'')))
                in case r of
                     Inl e \<Rightarrow> (cs @ cs1 @ cs', Inl e)
                   | Inr res \<Rightarrow>
                       (cs @ cs1 @ cs',
                        Inr \<lparr>success = True, result = res, model_used = used,
                             processing_time = time_time env 1 - time_time env 0,
                             source_type = st, source = src\<rparr>))))"

definition process_handler :: "exn \<Rightarrow> exn" where
  "process_handler e = HTTPException 500 (''AI processing failed: '' @ str_exn e)"

definition process_with_ai :: "env \<Rightarrow> ProcessRequest \<Rightarrow> ProcessResponse io" where
  "process_with_ai env request =
     (case process_with_ai_try env request of
        (cs, Inl e) \<Rightarrow> (cs, Inl (process_handler e))
      | (cs, Inr response) \<Rightarrow> (cs, Inr response))"

text \<open>
  \<^verbatim>\<open>process_with_ai_stream\<close> returns a \<^verbatim>\<open>StreamingResponse\<close> over the generator of the
  selected provider; the model gives the frames the generator yields when it is consumed,
  and the calls made up to then.
\<close>

definition process_with_ai_stream_try :: "env \<Rightarrow> ProcessRequest \<Rightarrow> frame list io" where
  "process_with_ai_stream_try env request =
     (case determine_source env request of
        (cs, Inl e) \<Rightarrow> (cs, Inl e)
      | (cs, Inr (st, source_text, src)) \<Rightarrow>
          (case build_prompt env source_text st of
             (cs1, Inl e) \<Rightarrow> (cs @ cs1, Inl e)
           | (cs1, Inr prompt) \<Rightarrow>
               (let (cs', fs) =
                      (if model_provider request = Some ''ollama'' then
                         stream_ollama_response env prompt (model_name request) st src
                           (time_time env 0) (system_prompt request)
                       else
                         stream_openai_response env prompt (model_name request) st src
                           (time_time env 0) (system_prompt request))
                in (cs @ cs1 @ cs', Inr fs))))"

definition process_with_ai_stream :: "env \<Rightarrow> ProcessRequest \<Rightarrow> frame list io" where
  "process_with_ai_stream env request =
     (case process_with_ai_stream_try env request of
        (cs, Inl e) \<Rightarrow> (cs, Inl (process_handler e))
      | (cs, Inr fs) \<Rightarrow> (cs, Inr fs))"

section \<open>Reading frames, and an example environment\<close>

text \<open>
  The three frame shapes differ in their keys: a chunk frame has the key \<^verbatim>\<open>chunk\<close>, an
  error frame the key \<^verbatim>\<open>error\<close>, and the final frame the key \<^verbatim>\<open>done\<close> without
  \<^verbatim>\<open>chunk\<close>.
\<close>

fun frame_keys :: "frame \<Rightarrow> string list" where
  "frame_keys (JObj kv) = map fst kv"
| "frame_keys v = []"

fun frame_field :: "frame \<Rightarrow> string \<Rightarrow> json option" where
  "frame_field (JObj kv) k = map_of kv k"
| "frame_field v k = None"

definition is_chunk :: "frame \<Rightarrow> bool" where
  "is_chunk f = (''chunk'' \<in> set (frame_keys f))"

definition is_error :: "frame \<Rightarrow> bool" where
  "is_error f = (''error'' \<in> set (frame_keys f))"

definition is_done :: "frame \<Rightarrow> bool" where
  "is_done f = (''done'' \<in> set (frame_keys f) \<and> ''chunk'' \<notin> set (frame_keys f))"

text \<open>
  An environment for concrete runs: a page with a script block, a local backend that
  answers with the two lines \<^verbatim>\<open>{"response":"Hi","done":false}\<close> and
  \<^verbatim>\<open>{"response":" there","done":true}\<close>, and a hosted backend with a configured key.
\<close>

definition example_page :: response where
  "example_page =
     \<lparr>status_code = 200, reason = ''OK'', resp_url = ''https://example.com/page'',
      resp_text = ''<html><script>var x = 1;</script><p>Hello   world</p></html>'',
      resp_json = Inl (JSONDecodeError ''Expecting value''),
      resp_lines = [], resp_lines_end = None\<rparr>"

definition example_generate :: response where
  "example_generate =
     \<lparr>status_code = 200, reason = ''OK'', resp_url = ''http://localhost:11434/api/generate'',
      resp_text = [],
      resp_json = Inr (JObj [(''response'', JStr '' Hi there ''), (''done'', JBool True)]),
      resp_lines =
        [Line (Inr (JObj [(''response'', JStr ''Hi''), (''done'', JBool False)])),
         Line (Inr (JObj [(''response'', JStr '' there''), (''done'', JBool True)]))],
      resp_lines_end = None\<rparr>"

definition example_chat :: chat_response where
  "example_chat =
     \<lparr>message_content = Inr (Some '' Hi there ''),
      deltas = [Inr None, Inr (Some ''Hi''), Inr (Some '' there''), Inr None],
      deltas_end = None\<rparr>"

definition example_env :: env where
  "example_env =
     \<lparr>openai_api_key = Some ''sk-example'',
      OLLAMA_BASE_URL = ''http://localhost:11434'',
      requests_get = (\<lambda>u. Inr example_page),
      requests_post = (\<lambda>u p. Inr example_generate),
      ChatCompletion_create = (\<lambda>r. Inr example_chat),
      time_time = (\<lambda>n. real n)\<rparr>"

definition example_request :: ProcessRequest where
  "example_request =
     \<lparr>text' = Some ''Hello'', url = Some ''https://example.com/page'',
      task_type = Some ''general'', format_type = Some ''json'',
      additional_context = None, model_provider = Some ''openai'',
      model_name = None, system_prompt = None\<rparr>"

section \<open>Properties of the sanitizer\<close>

text \<open>
  Two predicates describe the output of the sanitizer. \<open>no_markup s\<close>: the tag pattern
  matches at no position of \<open>s\<close>. \<open>ws_normal s\<close>: every whitespace character of \<open>s\<close> is
  a blank that no whitespace follows.
\<close>

fun no_markup :: "string \<Rightarrow> bool" where
  "no_markup [] = True"
| "no_markup (c # cs) = (match_tag (c # cs) = None \<and> no_markup cs)"

fun ws_normal :: "string \<Rightarrow> bool" where
  "ws_normal [] = True"
| "ws_normal (c # cs) =
     ((isspace c \<longrightarrow> c = CHR '' '' \<and> (cs = [] \<or> \<not> isspace (hd cs))) \<and> ws_normal cs)"

lemma isspace_gt [simp]: "\<not> isspace (CHR ''>'')"
  by (simp add: isspace_def)

lemma isspace_lt [simp]: "\<not> isspace (CHR ''<'')"
  by (simp add: isspace_def)

lemma isspace_blank [simp]: "isspace (CHR '' '')"
  by (simp add: isspace_def)

lemma match_tag_None_iff:
  "match_tag (c # s) = None \<longleftrightarrow>
     c \<noteq> CHR ''<'' \<or> s = [] \<or> hd s = CHR ''>'' \<or> CHR ''>'' \<notin> set s"
  by (cases s) (auto simp: match_tag_def)

lemma match_tag_Nil [simp]: "match_tag [] = None"
  by (simp add: match_tag_def)

lemma set_tl_dropWhile: "set (tl (dropWhile P xs)) \<subseteq> set xs"
proof -
  have "set (tl ys) \<subseteq> set ys" for ys :: "'a list"
    by (cases ys) auto
  then have "set (tl (dropWhile P xs)) \<subseteq> set (dropWhile P xs)" .
  also have "\<dots> \<subseteq> set xs" by (auto dest: set_dropWhileD)
  finally show ?thesis .
qed

lemma set_strip_tags: "set (strip_tags s) \<subseteq> set s"
proof (induction s rule: strip_tags.induct)
  case 1
  show ?case by simp
next
  case (2 c cs)
  show ?case
  proof (cases "match_tag (c # cs)")
    case None
    from 2(1)[OF None] None show ?thesis by auto
  next
    case (Some rest)
    from match_tag_SomeD[OF Some] obtain d ds where cs: "cs = d # ds"
      and rest: "rest = tl (dropWhile (\<lambda>x. x \<noteq> CHR ''>'') ds)"
      by auto
    have "set rest \<subseteq> set ds"
      unfolding rest by (rule set_tl_dropWhile)
    with 2(2)[OF Some] have "set (strip_tags rest) \<subseteq> set (c # cs)" unfolding cs by auto
    then show ?thesis using Some by simp
  qed
qed

lemma match_tag_other [simp]: "c \<noteq> CHR ''<'' \<Longrightarrow> match_tag (c # s) = None"
  by (simp add: match_tag_None_iff)

lemma no_markup_strip_tags: "no_markup (strip_tags s)"
proof (induction s rule: strip_tags.induct)
  case 1
  show ?case by simp
next
  case (2 c cs)
  show ?case
  proof (cases "match_tag (c # cs)")
    case (Some rest)
    with 2(2)[OF Some] show ?thesis by simp
  next
    case None
    have tail: "no_markup (strip_tags cs)" using 2(1)[OF None] .
    have "match_tag (c # strip_tags cs) = None"
    proof (cases "c = CHR ''<''")
      case False
      then show ?thesis by (simp add: match_tag_None_iff)
    next
      case True
      from None True have "cs = [] \<or> hd cs = CHR ''>'' \<or> CHR ''>'' \<notin> set cs"
        by (simp add: match_tag_None_iff)
      then show ?thesis
      proof (elim disjE)
        assume "cs = []"
        then show ?thesis by (simp add: match_tag_None_iff)
      next
        assume h: "hd cs = CHR ''>''"
        show ?thesis
        proof (cases cs)
          case Nil
          then show ?thesis by (simp add: match_tag_None_iff)
        next
          case (Cons d ds)
          with h have "cs = CHR ''>'' # ds" by simp
          then show ?thesis by (simp add: match_tag_None_iff)
        qed
      next
        assume "CHR ''>'' \<notin> set cs"
        with set_strip_tags[of cs] have "CHR ''>'' \<notin> set (strip_tags cs)" by auto
        then show ?thesis by (simp add: match_tag_None_iff)
      qed
    qed
    with tail None show ?thesis by simp
  qed
qed

lemma no_markup_strip_tags_id: "no_markup s \<Longrightarrow> strip_tags s = s"
  by (induction s) auto

lemma ascii_lower_range:
  "ascii_lower c = c \<or> ascii_lower c \<in> set ''abcdefghijklmnopqrstuvwxyz''"
proof (cases "map_of (zip ''ABCDEFGHIJKLMNOPQRSTUVWXYZ'' ''abcdefghijklmnopqrstuvwxyz'') c")
  case None
  then show ?thesis by (simp add: ascii_lower_def)
next
  case (Some l)
  then have "(c, l) \<in> set (zip ''ABCDEFGHIJKLMNOPQRSTUVWXYZ'' ''abcdefghijklmnopqrstuvwxyz'')"
    by (rule map_of_SomeD)
  then have "l \<in> set ''abcdefghijklmnopqrstuvwxyz''"
    by (rule set_zip_rightD)
  with Some show ?thesis by (simp add: ascii_lower_def)
qed

lemma ascii_lower_lt: "ascii_lower c = CHR ''<'' \<Longrightarrow> c = CHR ''<''"
  using ascii_lower_range[of c] by auto

lemma ascii_lower_gt: "ascii_lower (CHR ''>'') = CHR ''>''"
  by (simp add: ascii_lower_def)

lemma ascii_lower_s: "ascii_lower c = CHR ''s'' \<Longrightarrow> c \<noteq> CHR ''>''"
  using ascii_lower_gt by auto

lemma match_block_needs_tag:
  assumes "match_block (CHR ''<'' # CHR ''s'' # ps) closing s = Some r"
  shows "match_tag s \<noteq> None"
proof -
  from assms have pre: "imatch_prefix (CHR ''<'' # CHR ''s'' # ps) s"
    and gt: "CHR ''>'' \<in> set (drop (length (CHR ''<'' # CHR ''s'' # ps)) s)"
    by (auto simp: match_block_def Let_def split: if_splits)
  from pre obtain c d ds where s: "s = c # d # ds"
    and c: "ascii_lower c = CHR ''<''" and d: "ascii_lower d = CHR ''s''"
    by (cases s; cases "tl s") auto
  from gt s have "CHR ''>'' \<in> set (drop (length ps) ds)" by simp
  then have "CHR ''>'' \<in> set ds" by (meson in_set_dropD)
  with s ascii_lower_lt[OF c] ascii_lower_s[OF d] show ?thesis
    by (simp add: match_tag_def)
qed

lemma no_markup_strip_block_id:
  "no_markup s \<Longrightarrow> strip_block (CHR ''<'' # CHR ''s'' # ps) closing s = s"
proof (induction s)
  case Nil
  show ?case by simp
next
  case (Cons c cs)
  then have "match_tag (c # cs) = None" by simp
  with match_block_needs_tag[of ps closing "c # cs"]
  have "match_block (CHR ''<'' # CHR ''s'' # ps) closing (c # cs) = None"
    by (cases "match_block (CHR ''<'' # CHR ''s'' # ps) closing (c # cs)") auto
  with Cons show ?case by simp
qed

lemma no_markup_append_right: "no_markup (xs @ ys) \<Longrightarrow> no_markup ys"
  by (induction xs) auto

lemma no_markup_dropWhile: "no_markup s \<Longrightarrow> no_markup (dropWhile P s)"
  using no_markup_append_right[of "takeWhile P s" "dropWhile P s"] by simp

lemma no_markup_append_left:
  "no_markup (xs @ ys) \<Longrightarrow> CHR ''>'' \<notin> set ys \<Longrightarrow> no_markup xs"
proof (induction xs)
  case Nil
  show ?case by simp
next
  case (Cons c xs)
  then have m: "match_tag (c # xs @ ys) = None" and rest: "no_markup xs" by auto
  have "match_tag (c # xs) = None"
    using m Cons.prems(2) by (cases xs) (auto simp: match_tag_None_iff)
  with rest show ?case by simp
qed

lemma set_sub_whitespace: "set (sub_whitespace s) \<subseteq> insert (CHR '' '') (set s)"
proof (induction s rule: sub_whitespace.induct)
  case 1
  show ?case by simp
next
  case (2 c cs)
  have "set (dropWhile isspace cs) \<subseteq> set cs" by (auto dest: set_dropWhileD)
  with 2 show ?case by (cases "isspace c") auto
qed

lemma no_markup_sub_whitespace: "no_markup s \<Longrightarrow> no_markup (sub_whitespace s)"
proof (induction s rule: sub_whitespace.induct)
  case 1
  show ?case by simp
next
  case (2 c cs)
  show ?case
  proof (cases "isspace c")
    case True
    from 2(3) have "no_markup (dropWhile isspace cs)" by (simp add: no_markup_dropWhile)
    with 2(1)[OF True] True show ?thesis by (simp add: match_tag_None_iff)
  next
    case False
    from 2(3) have m: "match_tag (c # cs) = None" and t: "no_markup cs" by auto
    have "match_tag (c # sub_whitespace cs) = None"
    proof (cases "c = CHR ''<''")
      case c: False
      then show ?thesis by (simp add: match_tag_None_iff)
    next
      case c: True
      from m c have "cs = [] \<or> hd cs = CHR ''>'' \<or> CHR ''>'' \<notin> set cs"
        by (simp add: match_tag_None_iff)
      then show ?thesis
      proof (elim disjE)
        assume "cs = []"
        then show ?thesis by (simp add: match_tag_None_iff)
      next
        assume h: "hd cs = CHR ''>''"
        show ?thesis
        proof (cases cs)
          case Nil
          then show ?thesis by (simp add: match_tag_None_iff)
        next
          case (Cons d ds)
          with h show ?thesis by (simp add: match_tag_None_iff)
        qed
      next
        assume "CHR ''>'' \<notin> set cs"
        with set_sub_whitespace[of cs] have "CHR ''>'' \<notin> set (sub_whitespace cs)" by auto
        then show ?thesis by (simp add: match_tag_None_iff)
      qed
    qed
    with 2(2)[OF False t] False show ?thesis by simp
  qed
qed

lemma strip_decompose:
  "\<exists>pre post. dropWhile isspace s = strip s @ post \<and> s = pre @ dropWhile isspace s
      \<and> (\<forall>x \<in> set post. isspace x)"
proof -
  let ?t = "dropWhile isspace s"
  have "rev ?t = takeWhile isspace (rev ?t) @ dropWhile isspace (rev ?t)" by simp
  then have "?t = rev (dropWhile isspace (rev ?t)) @ rev (takeWhile isspace (rev ?t))"
    by (metis rev_append rev_rev_ident)
  then have a: "?t = strip s @ rev (takeWhile isspace (rev ?t))" by (simp add: strip_def)
  have b: "s = takeWhile isspace s @ ?t" by simp
  have c: "\<forall>x \<in> set (rev (takeWhile isspace (rev ?t))). isspace x"
    by (auto dest: set_takeWhileD)
  from a b c show ?thesis by blast
qed

lemma no_markup_strip: "no_markup s \<Longrightarrow> no_markup (strip s)"
proof -
  assume a: "no_markup s"
  obtain pre post where p: "dropWhile isspace s = strip s @ post"
    and q: "\<forall>x \<in> set post. isspace x"
    using strip_decompose[of s] by blast
  from a have "no_markup (strip s @ post)" unfolding p[symmetric] by (rule no_markup_dropWhile)
  moreover from q have "CHR ''>'' \<notin> set post" by auto
  ultimately show ?thesis by (rule no_markup_append_left)
qed

lemma sub_whitespace_no_lead:
  "s = [] \<or> \<not> isspace (hd s) \<Longrightarrow>
     sub_whitespace s = [] \<or> \<not> isspace (hd (sub_whitespace s))"
  by (cases s) simp_all

lemma ws_normal_sub_whitespace: "ws_normal (sub_whitespace s)"
proof (induction s rule: sub_whitespace.induct)
  case 1
  show ?case by simp
next
  case (2 c cs)
  show ?case
  proof (cases "isspace c")
    case True
    have "dropWhile isspace cs = [] \<or> \<not> isspace (hd (dropWhile isspace cs))"
      using hd_dropWhile[of isspace cs] by blast
    then have "sub_whitespace (dropWhile isspace cs) = []
        \<or> \<not> isspace (hd (sub_whitespace (dropWhile isspace cs)))"
      by (rule sub_whitespace_no_lead)
    with 2(1)[OF True] True show ?thesis by simp
  next
    case False
    with 2(2)[OF False] show ?thesis by simp
  qed
qed

lemma ws_normal_id: "ws_normal s \<Longrightarrow> sub_whitespace s = s"
proof (induction s)
  case Nil
  show ?case by simp
next
  case (Cons c cs)
  then have ih: "sub_whitespace cs = cs" by simp
  show ?case
  proof (cases "isspace c")
    case False
    with ih show ?thesis by simp
  next
    case True
    with Cons.prems have c: "c = CHR '' ''" and "cs = [] \<or> \<not> isspace (hd cs)" by auto
    then have "dropWhile isspace cs = cs" by (simp add: dropWhile_eq_self_iff)
    with True c ih show ?thesis by simp
  qed
qed

lemma ws_normal_append_right: "ws_normal (xs @ ys) \<Longrightarrow> ws_normal ys"
  by (induction xs) simp_all

lemma ws_normal_append_left: "ws_normal (xs @ ys) \<Longrightarrow> ws_normal xs"
proof (induction xs)
  case Nil
  show ?case by simp
next
  case (Cons c xs)
  then have ih: "ws_normal xs" by simp
  from Cons.prems have
    "isspace c \<longrightarrow> c = CHR '' '' \<and> (xs @ ys = [] \<or> \<not> isspace (hd (xs @ ys)))"
    by simp
  then have "isspace c \<longrightarrow> c = CHR '' '' \<and> (xs = [] \<or> \<not> isspace (hd xs))"
    by (cases xs) simp_all
  with ih show ?case by simp
qed

lemma ws_normal_strip: "ws_normal s \<Longrightarrow> ws_normal (strip s)"
proof -
  assume a: "ws_normal s"
  obtain pre post where p: "dropWhile isspace s = strip s @ post"
    and q: "s = pre @ dropWhile isspace s"
    using strip_decompose[of s] by blast
  from a q have "ws_normal (dropWhile isspace s)" by (metis ws_normal_append_right)
  then show ?thesis unfolding p by (rule ws_normal_append_left)
qed

lemma strip_idem: "strip (strip s) = strip s"
proof -
  let ?t = "dropWhile isspace s"
  let ?u = "strip s"
  have u: "?u = rev (dropWhile isspace (rev ?t))" by (simp add: strip_def)
  have no_trail: "dropWhile isspace (rev ?u) = rev ?u"
    unfolding u by (simp add: dropWhile_idem)
  obtain pre post where p: "?t = ?u @ post"
    using strip_decompose[of s] by blast
  have "?t = [] \<or> \<not> isspace (hd ?t)"
    using hd_dropWhile[of isspace s] by blast
  then have "?u = [] \<or> \<not> isspace (hd ?u)"
    unfolding p by (cases ?u) simp_all
  then have no_lead: "dropWhile isspace ?u = ?u"
    by (simp add: dropWhile_eq_self_iff)
  have "strip ?u = rev (dropWhile isspace (rev (dropWhile isspace ?u)))"
    by (simp add: strip_def)
  also have "\<dots> = rev (rev ?u)" by (simp only: no_lead no_trail)
  finally show ?thesis by simp
qed

text \<open>
  C7. Sanitization (strip the script and style blocks, strip the remaining tags, collapse
  every run of whitespace to one blank, trim) is idempotent: applied to its own output it
  returns that output unchanged, for every input string.
\<close>

theorem sanitize_idempotent: "sanitize (sanitize s) = sanitize s"
proof -
  define body where "body = strip_tags
       (strip_block ''<style'' ''</style>'' (strip_block ''<script'' ''</script>'' s))"
  have t: "sanitize s = strip (sub_whitespace body)" by (simp add: sanitize_def body_def)
  have nm: "no_markup (sanitize s)"
    unfolding t body_def
    by (intro no_markup_strip no_markup_sub_whitespace no_markup_strip_tags)
  have wn: "ws_normal (sanitize s)"
    unfolding t by (intro ws_normal_strip ws_normal_sub_whitespace)
  have 1: "strip_block ''<script'' ''</script>'' (sanitize s) = sanitize s"
    using nm by (rule no_markup_strip_block_id)
  have 2: "strip_block ''<style'' ''</style>'' (sanitize s) = sanitize s"
    using nm by (rule no_markup_strip_block_id)
  have 3: "strip_tags (sanitize s) = sanitize s"
    using nm by (rule no_markup_strip_tags_id)
  have 4: "sub_whitespace (sanitize s) = sanitize s"
    using wn by (rule ws_normal_id)
  have 5: "strip (sanitize s) = sanitize s"
    unfolding t by (rule strip_idem)
  show ?thesis
    unfolding sanitize_def[of "sanitize s"] 1 2 3 4 5 ..
qed

section \<open>The resolver rejects a url without a scheme\<close>

text \<open>
  C1. A request whose url is a bare host and path with no scheme should get
  \<^verbatim>\<open>https://\<close> prepended and then be fetched. The code validates before it prepends:
  \<^verbatim>\<open>urlparse\<close> finds neither scheme nor host in \<^verbatim>\<open>example.com/page\<close>, so the resolver
  raises at once, whatever the network would answer, and the statement that adds the
  scheme is never reached for such a url.
\<close>

theorem bare_host_path_rejected:
  "fetch_web_content env ''example.com/page''
     = ([], Inl (HTTPException 400 ''Error processing URL: Invalid URL format''))"
  by (simp add: fetch_web_content_def urlparse_def split_scheme_def c0_control_or_space_def
        unsafe_url_byte_def fetch_handler_def Let_def)

section \<open>Failures of the single-shot endpoint\<close>

text \<open>
  C2. A failure for missing input, and a failed fetch of the url, should reach the caller
  of \<^verbatim>\<open>/process\<close> with a 4xx status. Both are raised with status 400 inside the
  \<^verbatim>\<open>try\<close> block of \<^verbatim>\<open>process_with_ai\<close>, whose handler catches them and raises status 500:
  for every request without text and url, and for a url whose fetch fails with a connection
  error.
\<close>

theorem process_with_ai_rewraps_as_500:
  "process_with_ai env (request\<lparr>url := None, text' := None\<rparr>)
     = ([], Inl (HTTPException 500 (''AI processing failed: ''
          @ str_exn (HTTPException 400
              ''Either 'text' or 'url' must be provided for processing.''))))
   \<and> process_with_ai (env\<lparr>requests_get := \<lambda>u. Inl (RequestException ''connection refused'')\<rparr>)
         (request\<lparr>url := Some ''https://example.com/''\<rparr>)
     = ([Requests_get ''https://example.com/''],
        Inl (HTTPException 500 (''AI processing failed: ''
          @ str_exn (HTTPException 400 ''Failed to fetch URL: connection refused''))))"
  by (simp add: process_with_ai_def process_with_ai_try_def determine_source_def
        process_handler_def fetch_web_content_def urlparse_def split_scheme_def
        c0_control_or_space_def unsafe_url_byte_def fetch_handler_def Let_def
        ascii_letters_def scheme_chars_def splitnetloc_def startswith_def ascii_lower_def)

section \<open>The frames of a stream\<close>

lemma or_else_simps [simp]:
  "or_else None d = d"
  "or_else (Some []) d = d"
  "s \<noteq> [] \<Longrightarrow> or_else (Some s) d = s"
  by (simp_all add: or_else_def)

lemma done_frame_fields:
  "frame_field (done_frame pt used kind label) ''source_type'' = Some (JStr kind)"
  "frame_field (done_frame pt used kind label) ''source'' = Some (JStr label)"
  by (simp_all add: done_frame_def)

lemma is_done_simps:
  "is_done (done_frame pt used kind label)"
  "\<not> is_done (chunk_frame c d)"
  "\<not> is_done (error_frame msg)"
  by (simp_all add: is_done_def done_frame_def chunk_frame_def error_frame_def)

lemma is_chunk_simps:
  "\<not> is_chunk (done_frame pt used kind label)"
  "is_chunk (chunk_frame c d)"
  "\<not> is_chunk (error_frame msg)"
  by (simp_all add: is_chunk_def done_frame_def chunk_frame_def error_frame_def)

lemma is_error_simps:
  "\<not> is_error (done_frame pt used kind label)"
  "\<not> is_error (chunk_frame c d)"
  "is_error (error_frame msg)"
  by (simp_all add: is_error_def done_frame_def chunk_frame_def error_frame_def)

lemma openai_chunks_frames:
  "openai_chunks acc ds ending = (fs, r) \<Longrightarrow> f \<in> set fs
     \<Longrightarrow> \<exists>c. f = chunk_frame (JStr c) (JBool False)"
proof (induction acc ds ending arbitrary: fs r rule: openai_chunks.induct)
  case (1 full_response ending)
  then show ?case by simp
next
  case (2 full_response e ds ending)
  then show ?case by simp
next
  case (3 full_response ds ending)
  then show ?case by simp
next
  case (4 full_response content ds ending)
  show ?case
  proof (cases "content = []")
    case True
    with 4 show ?thesis by simp
  next
    case False
    obtain gs r' where rec: "openai_chunks (full_response @ content) ds ending = (gs, r')"
      by (cases "openai_chunks (full_response @ content) ds ending")
    with 4(3) False have fs: "fs = chunk_frame (JStr content) (JBool False) # gs" by simp
    from 4(4) fs have "f = chunk_frame (JStr content) (JBool False) \<or> f \<in> set gs" by simp
    then show ?thesis
    proof
      assume "f = chunk_frame (JStr content) (JBool False)"
      then show ?thesis by blast
    next
      assume "f \<in> set gs"
      with 4(2)[OF False rec] show ?thesis .
    qed
  qed
qed

lemma ollama_line_frames:
  assumes "ollama_line pt m kind label acc decoded = (fs, r)" and "f \<in> set fs"
  shows "(\<exists>kv c. decoded = Inr (JObj kv) \<and> map_of kv ''response'' = Some (JStr c)
            \<and> f = chunk_frame (JStr c)
                  (case map_of kv ''done'' of Some d \<Rightarrow> d | None \<Rightarrow> JBool False))
       \<or> f = done_frame pt (''ollama:'' @ m) kind label"
proof (cases decoded)
  case (Inl e)
  with assms show ?thesis by (simp add: ollama_line_def)
next
  case (Inr data)
  show ?thesis
  proof (cases data)
    case (JObj kv)
    show ?thesis
    proof (cases "map_of kv ''response''")
      case None
      then have "''response'' \<notin> fst ` set kv" by (simp add: map_of_eq_None_iff)
      with assms Inr JObj show ?thesis
        by (auto simp: ollama_line_def split: if_splits)
    next
      case (Some v)
      then have "''response'' \<in> fst ` set kv" by (metis map_of_eq_None_iff option.distinct(1))
      with assms Inr JObj Some show ?thesis
        by (cases v) (auto simp: ollama_line_def split: if_splits)
    qed
  qed (use assms Inr in \<open>auto simp: ollama_line_def no_attribute_def split: if_splits\<close>)
qed

lemma ollama_lines_frames:
  "ollama_lines pt m kind label acc ls ending = (fs, r) \<Longrightarrow> f \<in> set fs
     \<Longrightarrow> (\<exists>kv c. Line (Inr (JObj kv)) \<in> set ls \<and> map_of kv ''response'' = Some (JStr c)
            \<and> f = chunk_frame (JStr c)
                  (case map_of kv ''done'' of Some d \<Rightarrow> d | None \<Rightarrow> JBool False))
       \<or> f = done_frame pt (''ollama:'' @ m) kind label"
proof (induction ls arbitrary: acc fs r)
  case Nil
  then show ?case by simp
next
  case (Cons l ls)
  show ?case
  proof (cases l)
    case Blank
    with Cons.prems have "ollama_lines pt m kind label acc ls ending = (fs, r)" by simp
    from Cons.IH[OF this Cons.prems(2)] show ?thesis by auto
  next
    case (Line decoded)
    obtain hs out where line: "ollama_line pt m kind label acc decoded = (hs, out)"
      by (cases "ollama_line pt m kind label acc decoded")
    have here: ?thesis if "f \<in> set hs"
    proof -
      from ollama_line_frames[OF line that] show ?thesis
      proof
        assume "\<exists>kv c. decoded = Inr (JObj kv) \<and> map_of kv ''response'' = Some (JStr c)
            \<and> f = chunk_frame (JStr c)
                  (case map_of kv ''done'' of Some d \<Rightarrow> d | None \<Rightarrow> JBool False)"
        then obtain kv c where "decoded = Inr (JObj kv)"
          and "map_of kv ''response'' = Some (JStr c)"
          and "f = chunk_frame (JStr c)
                  (case map_of kv ''done'' of Some d \<Rightarrow> d | None \<Rightarrow> JBool False)"
          by blast
        moreover from this Line have "Line (Inr (JObj kv)) \<in> set (l # ls)" by simp
        ultimately show ?thesis by blast
      next
        assume "f = done_frame pt (''ollama:'' @ m) kind label"
        then show ?thesis by blast
      qed
    qed
    have later: ?thesis
      if "ollama_lines pt m kind label acc' ls ending = (gs, r')" and "f \<in> set gs"
      for acc' gs r'
    proof -
      from Cons.IH[OF that] show ?thesis
      proof
        assume "\<exists>kv c. Line (Inr (JObj kv)) \<in> set ls
            \<and> map_of kv ''response'' = Some (JStr c)
            \<and> f = chunk_frame (JStr c)
                  (case map_of kv ''done'' of Some d \<Rightarrow> d | None \<Rightarrow> JBool False)"
        then obtain kv c where "Line (Inr (JObj kv)) \<in> set ls"
          and "map_of kv ''response'' = Some (JStr c)"
          and "f = chunk_frame (JStr c)
                  (case map_of kv ''done'' of Some d \<Rightarrow> d | None \<Rightarrow> JBool False)"
          by blast
        moreover from this have "Line (Inr (JObj kv)) \<in> set (l # ls)" by simp
        ultimately show ?thesis by blast
      next
        assume "f = done_frame pt (''ollama:'' @ m) kind label"
        then show ?thesis by blast
      qed
    qed
    show ?thesis
    proof (cases out)
      case (Inl e)
      show ?thesis
      proof (cases "is_JSONDecodeError e")
        case True
        obtain gs r' where rec: "ollama_lines pt m kind label acc ls ending = (gs, r')"
          by (cases "ollama_lines pt m kind label acc ls ending")
        with Cons.prems(1) Line line Inl True have "fs = hs @ gs" by simp
        with Cons.prems(2) have "f \<in> set hs \<or> f \<in> set gs" by simp
        with here later[OF rec] show ?thesis by blast
      next
        case False
        with Cons.prems(1) Line line Inl have "fs = hs" by simp
        with Cons.prems(2) here show ?thesis by simp
      qed
    next
      case (Inr p)
      obtain left acc' where p: "p = (left, acc')" by (cases p)
      show ?thesis
      proof (cases left)
        case True
        with Cons.prems(1) Line line Inr p have "fs = hs" by simp
        with Cons.prems(2) here show ?thesis by simp
      next
        case False
        obtain gs r' where rec: "ollama_lines pt m kind label acc' ls ending = (gs, r')"
          by (cases "ollama_lines pt m kind label acc' ls ending")
        with Cons.prems(1) Line line Inr p False have "fs = hs @ gs" by simp
        with Cons.prems(2) have "f \<in> set hs \<or> f \<in> set gs" by simp
        with here later[OF rec] show ?thesis by blast
      qed
    qed
  qed
qed

lemma stream_openai_frames:
  assumes "f \<in> set (snd (stream_openai_response env p mn kind label t0 sp))"
  shows "(\<exists>c. f = chunk_frame (JStr c) (JBool False))
       \<or> (\<exists>msg. f = error_frame msg)
       \<or> (\<exists>pt used. f = done_frame pt used kind label)"
proof (cases "nonempty (openai_api_key env) = None")
  case True
  with assms show ?thesis by (auto simp: stream_openai_response_def)
next
  case False
  let ?req = "chat_completion (or_else mn ''gpt-3.5-turbo'')
                (or_else sp DEFAULT_SYSTEM_PROMPT) p True"
  show ?thesis
  proof (cases "ChatCompletion_create env ?req")
    case (Inl e)
    with assms False show ?thesis by (auto simp: stream_openai_response_def Let_def)
  next
    case (Inr response)
    obtain fs r where ch: "openai_chunks [] (deltas response) (deltas_end response) = (fs, r)"
      by (cases "openai_chunks [] (deltas response) (deltas_end response)")
    from assms False Inr ch have "f \<in> set fs \<or> (\<exists>msg. f = error_frame msg)
        \<or> (\<exists>pt used. f = done_frame pt used kind label)"
      by (cases r) (auto simp: stream_openai_response_def Let_def)
    with openai_chunks_frames[OF ch] show ?thesis by blast
  qed
qed

lemma ollama_stream_handler_error: "\<exists>msg. ollama_stream_handler e = error_frame msg"
  unfolding ollama_stream_handler_def by (cases "is_RequestException e") (simp_all, blast+)

lemma stream_ollama_frames:
  assumes "f \<in> set (snd (stream_ollama_response env p mn kind label t0 sp))"
  shows "(\<exists>response kv c.
            requests_post env (OLLAMA_BASE_URL env @ ''/api/generate'')
              (generate_payload (or_else mn ''llama2'') (or_else sp DEFAULT_SYSTEM_PROMPT) p True)
              = Inr response
            \<and> Line (Inr (JObj kv)) \<in> set (resp_lines response)
            \<and> map_of kv ''response'' = Some (JStr c)
            \<and> f = chunk_frame (JStr c)
                  (case map_of kv ''done'' of Some d \<Rightarrow> d | None \<Rightarrow> JBool False))
       \<or> (\<exists>msg. f = error_frame msg)
       \<or> (\<exists>pt used. f = done_frame pt used kind label)"
proof -
  let ?target = "OLLAMA_BASE_URL env @ ''/api/generate''"
  let ?payload = "generate_payload (or_else mn ''llama2'')
                    (or_else sp DEFAULT_SYSTEM_PROMPT) p True"
  show ?thesis
  proof (cases "requests_post env ?target ?payload")
    case (Inl e)
    with assms have "f = ollama_stream_handler e"
      by (simp add: stream_ollama_response_def Let_def)
    with ollama_stream_handler_error[of e] show ?thesis by auto
  next
    case (Inr response)
    show ?thesis
    proof (cases "status_code response = 200")
      case False
      with assms Inr show ?thesis by (auto simp: stream_ollama_response_def Let_def)
    next
      case True
      obtain fs r where ls: "ollama_lines (time_time env 1 - t0) (or_else mn ''llama2'')
          kind label [] (resp_lines response) (resp_lines_end response) = (fs, r)"
        by (cases "ollama_lines (time_time env 1 - t0) (or_else mn ''llama2'')
          kind label [] (resp_lines response) (resp_lines_end response)")
      from assms Inr True ls have "f \<in> set fs \<or> (\<exists>e. f = ollama_stream_handler e)"
        by (cases r) (auto simp: stream_ollama_response_def Let_def)
      then have "f \<in> set fs \<or> (\<exists>msg. f = error_frame msg)"
        using ollama_stream_handler_error by metis
      then show ?thesis
      proof
        assume "f \<in> set fs"
        from ollama_lines_frames[OF ls this] Inr show ?thesis by blast
      next
        assume "\<exists>msg. f = error_frame msg"
        then show ?thesis by blast
      qed
    qed
  qed
qed

text \<open>
  The frames of the hosted stream are chunk frames followed by exactly one final frame, a
  done frame or an error frame.
\<close>

lemma stream_openai_one_terminal:
  "\<exists>fs t. snd (stream_openai_response env p mn kind label t0 sp) = fs @ [t]
      \<and> list_all (\<lambda>f. is_chunk f \<and> \<not> is_done f \<and> \<not> is_error f) fs
      \<and> \<not> is_chunk t \<and> (is_done t \<noteq> is_error t)"
proof -
  let ?frames = "snd (stream_openai_response env p mn kind label t0 sp)"
  let ?chunk = "\<lambda>f. is_chunk f \<and> \<not> is_done f \<and> \<not> is_error f"
  have final: ?thesis
    if "?frames = fs @ [t]" and "list_all ?chunk fs"
      and "(\<exists>msg. t = error_frame msg) \<or> (\<exists>pt used. t = done_frame pt used kind label)"
    for fs t
  proof -
    from that(3) have "\<not> is_chunk t \<and> (is_done t \<noteq> is_error t)"
      by (auto simp: is_chunk_simps is_done_simps is_error_simps)
    with that(1,2) show ?thesis by blast
  qed
  show ?thesis
  proof (cases "nonempty (openai_api_key env) = None")
    case True
    then have "?frames = [] @ [error_frame ''OpenAI API key not configured'']"
      by (simp add: stream_openai_response_def)
    then show ?thesis by (rule final) auto
  next
    case False
    then obtain k where key: "nonempty (openai_api_key env) = Some k" by auto
    let ?req = "chat_completion (or_else mn ''gpt-3.5-turbo'')
                  (or_else sp DEFAULT_SYSTEM_PROMPT) p True"
    show ?thesis
    proof (cases "ChatCompletion_create env ?req")
      case (Inl e)
      with key have "?frames = [] @ [error_frame (''OpenAI API error: '' @ str_exn e)]"
        by (simp add: stream_openai_response_def Let_def)
      then show ?thesis by (rule final) auto
    next
      case (Inr response)
      obtain fs r where ch: "openai_chunks [] (deltas response) (deltas_end response) = (fs, r)"
        by (cases "openai_chunks [] (deltas response) (deltas_end response)")
      have "?chunk f" if "f \<in> set fs" for f
      proof -
        from openai_chunks_frames[OF ch that] obtain c
          where "f = chunk_frame (JStr c) (JBool False)" by blast
        then show ?thesis by (simp add: is_chunk_simps is_done_simps is_error_simps)
      qed
      then have all: "list_all ?chunk fs" by (simp add: list_all_iff)
      show ?thesis
      proof (cases r)
        case None
        with key Inr ch have "?frames = fs @ [done_frame (time_time env 1 - t0)
                    (''openai:'' @ or_else mn ''gpt-3.5-turbo'') kind label]"
          by (simp add: stream_openai_response_def Let_def)
        then show ?thesis using all by (rule final) blast
      next
        case (Some e)
        with key Inr ch
        have "?frames = fs @ [error_frame (''OpenAI API error: '' @ str_exn e)]"
          by (simp add: stream_openai_response_def Let_def)
        then show ?thesis using all by (rule final) blast
      qed
    qed
  qed
qed

lemma example_ollama_stream:
  "snd (stream_ollama_response example_env ''p'' None ''text'' ''Hello'' 0 None)
     = [chunk_frame (JStr ''Hi'') (JBool False),
        chunk_frame (JStr '' there'') (JBool True),
        done_frame 1 ''ollama:llama2'' ''text'' ''Hello'']"
  by (simp add: stream_ollama_response_def example_env_def example_generate_def
        ollama_line_def Let_def)

lemma example_openai_stream:
  "snd (stream_openai_response example_env ''p'' None ''text'' ''Hello'' 0 None)
     = [chunk_frame (JStr ''Hi'') (JBool False),
        chunk_frame (JStr '' there'') (JBool False),
        done_frame 1 ''openai:gpt-3.5-turbo'' ''text'' ''Hello'']"
  by (simp add: stream_openai_response_def example_env_def example_chat_def Let_def)

text \<open>
  C3. Every stream should end with exactly one final frame, a done frame or an error
  frame. When the line stream of the local backend ends without a line that reports
  completion, \<^verbatim>\<open>stream_ollama_response\<close> leaves its loop and yields nothing more: the
  frames are the chunk frames alone.
\<close>

theorem ollama_stream_without_terminal:
  "snd (stream_ollama_response
         (env\<lparr>requests_post := \<lambda>u p. Inr (example_generate\<lparr>resp_lines :=
            [Line (Inr (JObj [(''response'', JStr ''Hi''), (''done'', JBool False)]))]\<rparr>)\<rparr>)
         prompt mn st src t0 sp)
     = [chunk_frame (JStr ''Hi'') (JBool False)]
   \<and> filter (\<lambda>f. is_done f \<or> is_error f) [chunk_frame (JStr ''Hi'') (JBool False)] = []"
  by (simp add: stream_ollama_response_def example_generate_def ollama_line_def Let_def
        chunk_frame_def is_done_def is_error_def)

text \<open>
  C4, as amended. Every chunk frame of the hosted stream is
  \<^verbatim>\<open>{"chunk": text, "done": false}\<close>. Every chunk frame of the local stream is
  \<^verbatim>\<open>{"chunk": text, "done": d}\<close>, where \<^verbatim>\<open>text\<close> is the \<^verbatim>\<open>response\<close> field of one of the
  decoded lines of the backend's answer and \<^verbatim>\<open>d\<close> is the \<^verbatim>\<open>done\<close> field of that same
  line, \<^verbatim>\<open>false\<close> when the line has none.
\<close>

theorem chunk_frames_done_field:
  "(\<forall>f \<in> set (snd (stream_openai_response env p mn kind label t0 sp)).
      is_chunk f \<longrightarrow> (\<exists>c. f = chunk_frame (JStr c) (JBool False)))
   \<and> (\<forall>f \<in> set (snd (stream_ollama_response env p mn kind label t0 sp)).
      is_chunk f \<longrightarrow>
        (\<exists>response kv c.
            requests_post env (OLLAMA_BASE_URL env @ ''/api/generate'')
              (generate_payload (or_else mn ''llama2'') (or_else sp DEFAULT_SYSTEM_PROMPT) p True)
              = Inr response
            \<and> Line (Inr (JObj kv)) \<in> set (resp_lines response)
            \<and> map_of kv ''response'' = Some (JStr c)
            \<and> f = chunk_frame (JStr c)
                  (case map_of kv ''done'' of Some d \<Rightarrow> d | None \<Rightarrow> JBool False)))"
proof (intro conjI ballI impI)
  fix f
  assume "f \<in> set (snd (stream_openai_response env p mn kind label t0 sp))" and "is_chunk f"
  with stream_openai_frames[of f env p mn kind label t0 sp]
  show "\<exists>c. f = chunk_frame (JStr c) (JBool False)"
    by (auto simp: is_chunk_simps)
next
  fix f
  assume "f \<in> set (snd (stream_ollama_response env p mn kind label t0 sp))" and "is_chunk f"
  with stream_ollama_frames[of f env p mn kind label t0 sp]
  show "\<exists>response kv c.
            requests_post env (OLLAMA_BASE_URL env @ ''/api/generate'')
              (generate_payload (or_else mn ''llama2'') (or_else sp DEFAULT_SYSTEM_PROMPT) p True)
              = Inr response
            \<and> Line (Inr (JObj kv)) \<in> set (resp_lines response)
            \<and> map_of kv ''response'' = Some (JStr c)
            \<and> f = chunk_frame (JStr c)
                  (case map_of kv ''done'' of Some d \<Rightarrow> d | None \<Rightarrow> JBool False)"
    by (auto simp: is_chunk_simps)
qed

theorem chunk_frames_done_field_witness:
  "is_chunk (snd (stream_openai_response example_env ''p'' None ''text'' ''Hello'' 0 None) ! 1)
   \<and> (\<exists>c. snd (stream_openai_response example_env ''p'' None ''text'' ''Hello'' 0 None) ! 1
            = chunk_frame (JStr c) (JBool False))
   \<and> is_chunk (snd (stream_ollama_response example_env ''p'' None ''text'' ''Hello'' 0 None) ! 0)
   \<and> snd (stream_ollama_response example_env ''p'' None ''text'' ''Hello'' 0 None) ! 0
        = chunk_frame (JStr ''Hi'') (JBool False)"
  using chunk_frames_done_field[of example_env "''p''" None "''text''" "''Hello''" 0 None]
  by (simp add: example_openai_stream example_ollama_stream is_chunk_simps)

text \<open>
  C4 as stated fails on the local stream: for the lines \<^verbatim>\<open>{"response":"Hi","done":false}\<close>
  and \<^verbatim>\<open>{"response":" there","done":true}\<close> the second chunk frame carries
  \<^verbatim>\<open>"done": true\<close>.
\<close>

theorem chunk_frame_done_true_counterexample:
  "snd (stream_ollama_response example_env ''p'' None ''text'' ''Hello'' 0 None)
     = [chunk_frame (JStr ''Hi'') (JBool False),
        chunk_frame (JStr '' there'') (JBool True),
        done_frame 1 ''ollama:llama2'' ''text'' ''Hello'']
   \<and> is_chunk (chunk_frame (JStr '' there'') (JBool True))
   \<and> chunk_frame (JStr '' there'') (JBool True) \<noteq> chunk_frame (JStr '' there'') (JBool False)"
  by (simp add: example_ollama_stream is_chunk_simps) (simp add: chunk_frame_def)

section \<open>Missing input\<close>

lemma nonempty_None_iff: "nonempty x = None \<longleftrightarrow> x = None \<or> x = Some []"
  by (cases x) auto

text \<open>
  C5. When text and url are both absent or empty, the request is rejected: the resolver
  raises the 400 exception for missing input, both endpoints fail, and no network call,
  neither a fetch nor a backend call, has been made.
\<close>

theorem missing_input_rejected_without_network:
  assumes "url request = None \<or> url request = Some []"
    and "text' request = None \<or> text' request = Some []"
  shows "determine_source env request
           = ([], Inl (HTTPException 400
                ''Either 'text' or 'url' must be provided for processing.''))
       \<and> process_with_ai env request
           = ([], Inl (process_handler (HTTPException 400
                ''Either 'text' or 'url' must be provided for processing.'')))
       \<and> process_with_ai_stream env request
           = ([], Inl (process_handler (HTTPException 400
                ''Either 'text' or 'url' must be provided for processing.'')))"
proof -
  from assms have u: "nonempty (url request) = None" and t: "nonempty (text' request) = None"
    by (simp_all add: nonempty_None_iff)
  have d: "determine_source env request
           = ([], Inl (HTTPException 400
                ''Either 'text' or 'url' must be provided for processing.''))"
    by (simp add: determine_source_def u t)
  show ?thesis
    by (simp add: d process_with_ai_def process_with_ai_try_def
          process_with_ai_stream_def process_with_ai_stream_try_def)
qed

theorem missing_input_rejected_witness:
  "determine_source example_env (example_request\<lparr>url := Some [], text' := None\<rparr>)
     = ([], Inl (HTTPException 400
          ''Either 'text' or 'url' must be provided for processing.''))
   \<and> fst (process_with_ai example_env (example_request\<lparr>url := Some [], text' := None\<rparr>))
     = []
   \<and> fst (process_with_ai_stream example_env
          (example_request\<lparr>url := Some [], text' := None\<rparr>)) = []"
  using missing_input_rejected_without_network
          [of "example_request\<lparr>url := Some [], text' := None\<rparr>" example_env]
  by simp

section \<open>Truncation\<close>

lemma fetch_web_content_success:
  assumes "fetch_web_content env u = (cs, Inr body)"
  shows "\<exists>target response. cs = [Requests_get target]
           \<and> requests_get env target = Inr response
           \<and> body = (if length (sanitize (resp_text response)) > 8000
                      then take 8000 (sanitize (resp_text response)) @ ''... [Content truncated]''
                      else sanitize (resp_text response))"
  using assms
  by (auto simp: fetch_web_content_def Let_def split: sum.splits if_splits option.splits)

lemma sanitize_example_page:
  "sanitize ''<html><script>var x = 1;</script><p>Hello   world</p></html>'' = ''Hello world''"
  by code_simp

lemma fetch_example_page:
  "fetch_web_content example_env ''https://example.com/page''
     = ([Requests_get ''https://example.com/page''], Inr ''Hello world'')"
  by (simp add: fetch_web_content_def urlparse_def split_scheme_def c0_control_or_space_def
        unsafe_url_byte_def fetch_handler_def Let_def ascii_letters_def scheme_chars_def
        splitnetloc_def startswith_def ascii_lower_def example_env_def example_page_def
        raise_for_status_def sanitize_example_page)

text \<open>
  C6. The length of a body the resolver returns for a url is at most 8000 plus the length
  of the truncation marker. The body comes from the sanitized text of the page that was
  fetched, and when that text is under 8000 characters the body equals it.
\<close>

theorem fetch_web_content_truncation:
  assumes "fetch_web_content env u = (cs, Inr body)"
  shows "length body \<le> 8000 + length ''... [Content truncated]''
       \<and> (\<exists>target response. cs = [Requests_get target]
             \<and> requests_get env target = Inr response
             \<and> (length (sanitize (resp_text response)) < 8000
                  \<longrightarrow> body = sanitize (resp_text response)))"
proof -
  from fetch_web_content_success[OF assms] obtain target response
    where cs: "cs = [Requests_get target]"
      and get: "requests_get env target = Inr response"
      and body: "body = (if length (sanitize (resp_text response)) > 8000
                      then take 8000 (sanitize (resp_text response)) @ ''... [Content truncated]''
                      else sanitize (resp_text response))"
    by blast
  have "length body \<le> 8000 + length ''... [Content truncated]''"
    unfolding body by simp
  moreover have "length (sanitize (resp_text response)) < 8000
                  \<longrightarrow> body = sanitize (resp_text response)"
    unfolding body by simp
  ultimately show ?thesis using cs get by blast
qed

theorem fetch_web_content_truncation_witness:
  "fetch_web_content example_env ''https://example.com/page''
     = ([Requests_get ''https://example.com/page''], Inr ''Hello world'')
   \<and> length ''Hello world'' \<le> 8000 + length ''... [Content truncated]''"
  using fetch_web_content_truncation[OF fetch_example_page] fetch_example_page
  by simp

section \<open>The prompt builder is a function of its arguments\<close>

lemma build_prompt_no_effect:
  "fst (build_prompt env body kind) = []"
  "\<exists>prompt. snd (build_prompt env body kind) = Inr prompt"
  by (simp_all add: build_prompt_def Let_def)

lemma build_prompt_any_env: "build_prompt env body kind = build_prompt env' body kind"
  by (simp add: build_prompt_def)

lemma join_lines_step:
  "join_lines (l # m # ls) = l @ CHR 0x0A # join_lines (m # ls)"
  by (simp add: join_lines_def)

lemma build_prompt_shape:
  "\<exists>tail. \<forall>env body kind.
     build_prompt env body kind
       = ([], Inr (CHR 0x0A # ''Please process the following ''
            @ (if kind = ''url'' then ''web page content'' else ''text'')
            @ '' and return a well-formatted JSON response:'' @ [CHR 0x0A, CHR 0x0A]
            @ body @ tail (kind = ''url'')))"
proof -
  let ?rest = "\<lambda>source_info.
        ['''',
         ''Requirements:'',
         ''- Return valid JSON format'',
         ''- Include relevant information extracted or generated from the '' @ source_info,
         ''- Structure the response logically'',
         ''- If the '' @ source_info @ '' contains questions, provide answers'',
         ''- If the '' @ source_info @ '' contains data, organize it appropriately'',
         ''- If processing a web page, extract key information, summarize content, and identify main topics'',
         '''']"
  let ?tail = "\<lambda>is_url. CHR 0x0A
        # join_lines (?rest (if is_url then ''web page content'' else ''text''))"
  have "build_prompt env body kind
       = ([], Inr (CHR 0x0A # ''Please process the following ''
            @ (if kind = ''url'' then ''web page content'' else ''text'')
            @ '' and return a well-formatted JSON response:'' @ [CHR 0x0A, CHR 0x0A]
            @ body @ ?tail (kind = ''url'')))" for env body kind
    unfolding build_prompt_def Let_def
    by (simp only: join_lines_step[of "[]"] join_lines_step[of _ "[]"]
          join_lines_step[of _ body]) simp
  then show ?thesis by (intro exI[of _ ?tail]) simp
qed

lemma build_prompt_embeds_arguments:
  assumes "build_prompt env body kind = build_prompt env' body' kind'"
  shows "body = body' \<and> (kind = ''url'' \<longleftrightarrow> kind' = ''url'')"
proof -
  obtain tail where s: "\<And>env body kind. build_prompt env body kind
       = ([], Inr (CHR 0x0A # ''Please process the following ''
            @ (if kind = ''url'' then ''web page content'' else ''text'')
            @ '' and return a well-formatted JSON response:'' @ [CHR 0x0A, CHR 0x0A]
            @ body @ tail (kind = ''url'')))"
    using build_prompt_shape by blast
  from assms show ?thesis
    unfolding s by (cases "kind = ''url''"; cases "kind' = ''url''") simp_all
qed

text \<open>
  C8. The prompt builder is a pure function of the body and the source kind. It makes no
  call and does not raise; two calls with the same body and the same source kind return
  the same prompt, whatever the two environments they run in; and the prompt it returns
  comes from its arguments: two calls return the same prompt only if they were given the
  same body and source kinds that agree on being \<^verbatim>\<open>url\<close>.
\<close>

theorem build_prompt_pure:
  "fst (build_prompt env body kind) = []
   \<and> (\<exists>prompt. snd (build_prompt env body kind) = Inr prompt)
   \<and> (body = body' \<and> kind = kind'
        \<longrightarrow> build_prompt env body kind = build_prompt env' body' kind')
   \<and> (build_prompt env body kind = build_prompt env' body' kind'
        \<longrightarrow> body = body' \<and> (kind = ''url'' \<longleftrightarrow> kind' = ''url''))"
  using build_prompt_no_effect[of env body kind] build_prompt_any_env[of env body kind env']
    build_prompt_embeds_arguments[of env body kind env' body' kind']
  by blast

theorem build_prompt_pure_witness:
  "build_prompt example_env ''Hello'' ''text''
     = build_prompt (example_env\<lparr>openai_api_key := None, time_time := \<lambda>n. 7\<rparr>) ''Hello'' ''text''
   \<and> fst (build_prompt example_env ''Hello'' ''text'') = []
   \<and> build_prompt example_env ''Hello'' ''text''
     \<noteq> build_prompt example_env ''Hello'' ''url''
   \<and> build_prompt example_env ''Hello'' ''text''
     \<noteq> build_prompt example_env ''Bye'' ''text''"
  using build_prompt_pure[of example_env "''Hello''" "''text''" "''Hello''" "''text''"
          "example_env\<lparr>openai_api_key := None, time_time := \<lambda>n. 7\<rparr>"]
    build_prompt_pure[of example_env "''Hello''" "''text''" "''Hello''" "''url''" example_env]
    build_prompt_pure[of example_env "''Hello''" "''text''" "''Bye''" "''text''" example_env]
  by auto

section \<open>The url takes precedence\<close>

lemma determine_source_url:
  assumes "url request = Some u" and "u \<noteq> []"
  shows "determine_source env request
           = (case fetch_web_content env u of
                (cs, Inl e) \<Rightarrow> (cs, Inl e)
              | (cs, Inr body) \<Rightarrow> (cs, Inr (''url'', body, u)))"
  using assms by (simp add: determine_source_def)

lemma determine_source_ignores_text:
  assumes "url request = Some u" and "u \<noteq> []"
  shows "determine_source env (request\<lparr>text' := t\<rparr>) = determine_source env request"
  using assms by (simp add: determine_source_def)

lemma determine_source_url_result:
  assumes "url request = Some u" and "u \<noteq> []"
    and "determine_source env request = (cs, Inr (kind, body, label))"
  shows "kind = ''url'' \<and> label = u"
  using assms
  by (auto simp: determine_source_url split: prod.splits sum.splits)

lemma stream_done_frames:
  assumes "f \<in> set (snd (if provider = Some ''ollama''
                           then stream_ollama_response env p mn kind label t0 sp
                           else stream_openai_response env p mn kind label t0 sp))"
    and "is_done f"
  shows "frame_field f ''source_type'' = Some (JStr kind)
       \<and> frame_field f ''source'' = Some (JStr label)"
proof -
  have "(\<exists>c d. f = chunk_frame c d) \<or> (\<exists>msg. f = error_frame msg)
      \<or> (\<exists>pt used. f = done_frame pt used kind label)"
  proof (cases "provider = Some ''ollama''")
    case True
    with assms(1) stream_ollama_frames[of f env p mn kind label t0 sp] show ?thesis
      by auto
  next
    case False
    with assms(1) stream_openai_frames[of f env p mn kind label t0 sp] show ?thesis
      by auto
  qed
  with assms(2) show ?thesis by (auto simp: is_done_simps done_frame_fields)
qed

lemma build_prompt_result:
  "\<exists>prompt. build_prompt env body kind = ([], Inr prompt)"
  using build_prompt_no_effect[of env body kind]
  by (cases "build_prompt env body kind") auto

lemma process_with_ai_url:
  assumes "url request = Some u" and "u \<noteq> []"
    and "fetch_web_content env u = (cs, Inr body)"
    and "build_prompt env body ''url'' = ([], Inr prompt)"
  shows "process_with_ai env request
           = (let (cs', r) =
                    (if model_provider request = Some ''ollama''
                     then call_ollama env prompt (model_name request) (system_prompt request)
                     else call_openai env prompt (model_name request) (system_prompt request))
              in case r of
                   Inl e \<Rightarrow> (cs @ cs', Inl (process_handler e))
                 | Inr res \<Rightarrow>
                     (cs @ cs',
                      Inr \<lparr>success = True, result = res,
                           model_used =
                             (if model_provider request = Some ''ollama''
                              then ''ollama:'' @ or_else (model_name request) ''llama2''
                              else ''openai:'' @ or_else (model_name request) ''gpt-3.5-turbo''),
                           processing_time = time_time env 1 - time_time env 0,
                           source_type = ''url'', source = u\<rparr>))"
proof -
  have d: "determine_source env request = (cs, Inr (''url'', body, u))"
    using assms(1-3) by (simp add: determine_source_url)
  show ?thesis
    by (simp add: process_with_ai_def process_with_ai_try_def d assms(4) Let_def
          split: prod.splits sum.splits)
qed

lemma process_with_ai_stream_url:
  assumes "url request = Some u" and "u \<noteq> []"
    and "fetch_web_content env u = (cs, Inr body)"
    and "build_prompt env body ''url'' = ([], Inr prompt)"
  shows "process_with_ai_stream env request
           = (let (cs', fs) =
                    (if model_provider request = Some ''ollama''
                     then stream_ollama_response env prompt (model_name request) ''url'' u
                            (time_time env 0) (system_prompt request)
                     else stream_openai_response env prompt (model_name request) ''url'' u
                            (time_time env 0) (system_prompt request))
              in (cs @ cs', Inr fs))"
proof -
  have d: "determine_source env request = (cs, Inr (''url'', body, u))"
    using assms(1-3) by (simp add: determine_source_url)
  show ?thesis
    by (simp add: process_with_ai_stream_def process_with_ai_stream_try_def d assms(4) Let_def
          split: prod.splits)
qed

lemma endpoints_url_fetch_fails:
  assumes "url request = Some u" and "u \<noteq> []"
    and "fetch_web_content env u = (cs, Inl e)"
  shows "process_with_ai env request = (cs, Inl (process_handler e))"
    and "process_with_ai_stream env request = (cs, Inl (process_handler e))"
proof -
  have d: "determine_source env request = (cs, Inl e)"
    using assms by (simp add: determine_source_url)
  show "process_with_ai env request = (cs, Inl (process_handler e))"
    by (simp add: process_with_ai_def process_with_ai_try_def d)
  show "process_with_ai_stream env request = (cs, Inl (process_handler e))"
    by (simp add: process_with_ai_stream_def process_with_ai_stream_try_def d)
qed

lemma example_prompt:
  "\<exists>prompt. build_prompt example_env ''Hello world'' ''url'' = ([], Inr prompt)"
  by (rule build_prompt_result)

lemma example_request_fields:
  "url example_request = Some ''https://example.com/page''"
  "model_provider example_request = Some ''openai''"
  "model_name example_request = None"
  "system_prompt example_request = None"
  by (simp_all add: example_request_def)

lemma example_single_shot:
  "snd (process_with_ai example_env example_request)
     = Inr \<lparr>success = True, result = ''Hi there'', model_used = ''openai:gpt-3.5-turbo'',
            processing_time = 1, source_type = ''url'',
            source = ''https://example.com/page''\<rparr>"
proof -
  obtain prompt where p: "build_prompt example_env ''Hello world'' ''url'' = ([], Inr prompt)"
    using example_prompt by blast
  have s: "strip '' Hi there '' = ''Hi there''" by code_simp
  have c: "call_openai example_env q None None
       = ([Openai_create (chat_completion ''gpt-3.5-turbo'' DEFAULT_SYSTEM_PROMPT q False)],
          Inr ''Hi there'')" for q
    by (simp add: call_openai_def example_env_def example_chat_def Let_def s)
  have t: "time_time example_env (Suc 0) - time_time example_env 0 = 1"
    by (simp add: example_env_def)
  have n: "''https://example.com/page'' \<noteq> []" by simp
  show ?thesis
    unfolding process_with_ai_url[OF example_request_fields(1) n fetch_example_page p]
    by (simp add: example_request_fields c t)
qed

lemma example_streamed:
  "snd (process_with_ai_stream example_env example_request)
     = Inr [chunk_frame (JStr ''Hi'') (JBool False),
            chunk_frame (JStr '' there'') (JBool False),
            done_frame 1 ''openai:gpt-3.5-turbo'' ''url'' ''https://example.com/page'']"
  "hd (fst (process_with_ai_stream example_env example_request))
     = Requests_get ''https://example.com/page''"
proof -
  obtain prompt where p: "build_prompt example_env ''Hello world'' ''url'' = ([], Inr prompt)"
    using example_prompt by blast
  have c: "stream_openai_response example_env q None kind label 0 None
       = ([Openai_create (chat_completion ''gpt-3.5-turbo'' DEFAULT_SYSTEM_PROMPT q True)],
          [chunk_frame (JStr ''Hi'') (JBool False),
           chunk_frame (JStr '' there'') (JBool False),
           done_frame 1 ''openai:gpt-3.5-turbo'' kind label])" for q kind label
    by (simp add: stream_openai_response_def example_env_def example_chat_def Let_def)
  have t: "time_time example_env 0 = 0" by (simp add: example_env_def)
  have n: "''https://example.com/page'' \<noteq> []" by simp
  note run = process_with_ai_stream_url[OF example_request_fields(1) n fetch_example_page p]
  show "snd (process_with_ai_stream example_env example_request)
     = Inr [chunk_frame (JStr ''Hi'') (JBool False),
            chunk_frame (JStr '' there'') (JBool False),
            done_frame 1 ''openai:gpt-3.5-turbo'' ''url'' ''https://example.com/page'']"
    unfolding run by (simp add: example_request_fields c t)
  show "hd (fst (process_with_ai_stream example_env example_request))
     = Requests_get ''https://example.com/page''"
    unfolding run by (simp add: example_request_fields c t)
qed

text \<open>
  C9. When the url of a request is not empty, the url takes precedence on both endpoints,
  whatever the text field holds. The source is determined by fetching the url, and both
  endpoints give the same result for every value of the text field. When the fetch fails,
  both endpoints fail with its exception. When the fetch returns a body, the single-shot
  endpoint calls the selected provider with the prompt built from that body and the source
  kind \<^verbatim>\<open>url\<close>, and the envelope of its answer has source type \<^verbatim>\<open>url\<close> and the url as
  its source; the streaming endpoint answers with the frames of the selected provider's
  generator, run on that prompt with source type \<^verbatim>\<open>url\<close> and the url as source, so that
  every final frame of the stream carries them.
\<close>

theorem url_takes_precedence:
  assumes "url request = Some u" and "u \<noteq> []"
  shows "determine_source env request
           = (case fetch_web_content env u of
                (cs, Inl e) \<Rightarrow> (cs, Inl e)
              | (cs, Inr body) \<Rightarrow> (cs, Inr (''url'', body, u)))
       \<and> process_with_ai env (request\<lparr>text' := t\<rparr>) = process_with_ai env request
       \<and> process_with_ai_stream env (request\<lparr>text' := t\<rparr>)
           = process_with_ai_stream env request
       \<and> (\<forall>cs response. process_with_ai env request = (cs, Inr response)
             \<longrightarrow> source_type response = ''url'' \<and> source response = u)
       \<and> (\<forall>cs fs f. process_with_ai_stream env request = (cs, Inr fs)
             \<longrightarrow> f \<in> set fs \<longrightarrow> is_done f
             \<longrightarrow> frame_field f ''source_type'' = Some (JStr ''url'')
                 \<and> frame_field f ''source'' = Some (JStr u))
       \<and> (\<forall>cs e. fetch_web_content env u = (cs, Inl e)
             \<longrightarrow> process_with_ai env request = (cs, Inl (process_handler e))
                 \<and> process_with_ai_stream env request = (cs, Inl (process_handler e)))
       \<and> (\<forall>cs body. fetch_web_content env u = (cs, Inr body)
             \<longrightarrow> (\<exists>prompt. build_prompt env body ''url'' = ([], Inr prompt)
                   \<and> process_with_ai env request
                       = (let (cs', r) =
                                (if model_provider request = Some ''ollama''
                                 then call_ollama env prompt (model_name request)
                                        (system_prompt request)
                                 else call_openai env prompt (model_name request)
                                        (system_prompt request))
                          in case r of
                               Inl e \<Rightarrow> (cs @ cs', Inl (process_handler e))
                             | Inr res \<Rightarrow>
                                 (cs @ cs',
                                  Inr \<lparr>success = True, result = res,
                                       model_used =
                                         (if model_provider request = Some ''ollama''
                                          then ''ollama:'' @ or_else (model_name request) ''llama2''
                                          else ''openai:''
                                            @ or_else (model_name request) ''gpt-3.5-turbo''),
                                       processing_time = time_time env 1 - time_time env 0,
                                       source_type = ''url'', source = u\<rparr>))
                   \<and> process_with_ai_stream env request
                       = (let (cs', fs) =
                                (if model_provider request = Some ''ollama''
                                 then stream_ollama_response env prompt (model_name request)
                                        ''url'' u (time_time env 0) (system_prompt request)
                                 else stream_openai_response env prompt (model_name request)
                                        ''url'' u (time_time env 0) (system_prompt request))
                          in (cs @ cs', Inr fs))))"
proof -
  note src = determine_source_url[OF assms, of env]
  have ign: "determine_source env (request\<lparr>text' := t\<rparr>) = determine_source env request"
    using assms by (rule determine_source_ignores_text)
  have single: "process_with_ai env (request\<lparr>text' := t\<rparr>) = process_with_ai env request"
    by (simp add: process_with_ai_def process_with_ai_try_def ign Let_def
          split: prod.splits sum.splits)
  have streamed: "process_with_ai_stream env (request\<lparr>text' := t\<rparr>)
           = process_with_ai_stream env request"
    by (simp add: process_with_ai_stream_def process_with_ai_stream_try_def ign Let_def
          split: prod.splits sum.splits)
  have fails: "process_with_ai env request = (cs, Inl (process_handler e))
                 \<and> process_with_ai_stream env request = (cs, Inl (process_handler e))"
    if "fetch_web_content env u = (cs, Inl e)" for cs e
    using endpoints_url_fetch_fails[OF assms that] by simp
  have runs: "\<exists>prompt. build_prompt env body ''url'' = ([], Inr prompt)
                   \<and> process_with_ai env request
                       = (let (cs', r) =
                                (if model_provider request = Some ''ollama''
                                 then call_ollama env prompt (model_name request)
                                        (system_prompt request)
                                 else call_openai env prompt (model_name request)
                                        (system_prompt request))
                          in case r of
                               Inl e \<Rightarrow> (cs @ cs', Inl (process_handler e))
                             | Inr res \<Rightarrow>
                                 (cs @ cs',
                                  Inr \<lparr>success = True, result = res,
                                       model_used =
                                         (if model_provider request = Some ''ollama''
                                          then ''ollama:'' @ or_else (model_name request) ''llama2''
                                          else ''openai:''
                                            @ or_else (model_name request) ''gpt-3.5-turbo''),
                                       processing_time = time_time env 1 - time_time env 0,
                                       source_type = ''url'', source = u\<rparr>))
                   \<and> process_with_ai_stream env request
                       = (let (cs', fs) =
                                (if model_provider request = Some ''ollama''
                                 then stream_ollama_response env prompt (model_name request)
                                        ''url'' u (time_time env 0) (system_prompt request)
                                 else stream_openai_response env prompt (model_name request)
                                        ''url'' u (time_time env 0) (system_prompt request))
                          in (cs @ cs', Inr fs))"
    if fetched: "fetch_web_content env u = (cs, Inr body)" for cs body
  proof -
    obtain prompt where p: "build_prompt env body ''url'' = ([], Inr prompt)"
      using build_prompt_result by blast
    from process_with_ai_url[OF assms fetched p] process_with_ai_stream_url[OF assms fetched p] p
    show ?thesis by blast
  qed
  have envelope: "source_type response = ''url'' \<and> source response = u"
    if run: "process_with_ai env request = (cs, Inr response)" for cs response
  proof -
    obtain cs0 r0 where f: "fetch_web_content env u = (cs0, r0)"
      by (cases "fetch_web_content env u")
    show ?thesis
    proof (cases r0)
      case (Inl e)
      with fails[of cs0 e] f run show ?thesis by simp
    next
      case (Inr body)
      obtain prompt where p: "build_prompt env body ''url'' = ([], Inr prompt)"
        using build_prompt_result by blast
      from f Inr have fetched: "fetch_web_content env u = (cs0, Inr body)" by simp
      from run show ?thesis
        unfolding process_with_ai_url[OF assms fetched p]
        by (auto simp: Let_def split: prod.splits sum.splits if_splits)
    qed
  qed
  have frames: "frame_field f ''source_type'' = Some (JStr ''url'')
                 \<and> frame_field f ''source'' = Some (JStr u)"
    if run: "process_with_ai_stream env request = (cs, Inr fs)" and f: "f \<in> set fs"
      and dn: "is_done f" for cs fs f
  proof -
    obtain cs0 r0 where g: "fetch_web_content env u = (cs0, r0)"
      by (cases "fetch_web_content env u")
    show ?thesis
    proof (cases r0)
      case (Inl e)
      with fails[of cs0 e] g run show ?thesis by simp
    next
      case (Inr body)
      obtain prompt where p: "build_prompt env body ''url'' = ([], Inr prompt)"
        using build_prompt_result by blast
      from g Inr have fetched: "fetch_web_content env u = (cs0, Inr body)" by simp
      from run have "fs = snd (if model_provider request = Some ''ollama''
                      then stream_ollama_response env prompt
                             (model_name request) ''url'' u (time_time env 0)
                             (system_prompt request)
                      else stream_openai_response env prompt
                             (model_name request) ''url'' u (time_time env 0)
                             (system_prompt request))"
        unfolding process_with_ai_stream_url[OF assms fetched p]
        by (auto simp: Let_def split: prod.splits if_splits)
      with f have "f \<in> set (snd (if model_provider request = Some ''ollama''
                      then stream_ollama_response env prompt
                             (model_name request) ''url'' u (time_time env 0)
                             (system_prompt request)
                      else stream_openai_response env prompt
                             (model_name request) ''url'' u (time_time env 0)
                             (system_prompt request)))"
        by simp
      from stream_done_frames[OF this dn] show ?thesis .
    qed
  qed
  from src single streamed envelope frames fails runs show ?thesis by blast
qed

theorem url_takes_precedence_witness:
  "snd (process_with_ai example_env (example_request\<lparr>text' := Some ''Something else''\<rparr>))
     = Inr \<lparr>success = True, result = ''Hi there'', model_used = ''openai:gpt-3.5-turbo'',
            processing_time = 1, source_type = ''url'',
            source = ''https://example.com/page''\<rparr>
   \<and> snd (process_with_ai_stream example_env
          (example_request\<lparr>text' := Some ''Something else''\<rparr>))
     = Inr [chunk_frame (JStr ''Hi'') (JBool False),
            chunk_frame (JStr '' there'') (JBool False),
            done_frame 1 ''openai:gpt-3.5-turbo'' ''url'' ''https://example.com/page'']
   \<and> hd (fst (process_with_ai_stream example_env
          (example_request\<lparr>text' := Some ''Something else''\<rparr>)))
     = Requests_get ''https://example.com/page''"
proof -
  have "url example_request = Some ''https://example.com/page''"
    and "''https://example.com/page'' \<noteq> []"
    by (simp_all add: example_request_def)
  from url_takes_precedence[OF this, of example_env "Some ''Something else''"]
  have "process_with_ai example_env (example_request\<lparr>text' := Some ''Something else''\<rparr>)
      = process_with_ai example_env example_request"
    and "process_with_ai_stream example_env
          (example_request\<lparr>text' := Some ''Something else''\<rparr>)
      = process_with_ai_stream example_env example_request"
    by blast+
  then show ?thesis by (simp add: example_single_shot example_streamed)
qed

section \<open>The system prompt\<close>











end
